theory Spec2Isabelle
  imports Complex_Main "HOL-Library.AList"
begin

section \<open>Conventions of the embedding\<close>

text \<open>
  The node is written in JavaScript. The embedding follows the classes function by
  function:
  \<^item> a JavaScript \<open>Map\<close> is an association list with distinct keys in insertion order
    (\<open>map_of\<close> reads it, \<open>AList.update\<close> is \<open>set\<close>, \<open>AList.delete\<close> is \<open>delete\<close>);
  \<^item> numbers that the code uses as integers (timestamps in milliseconds, difficulty,
    nonce, stake, reputation, heights) are \<open>int\<close> or \<open>nat\<close>; an amount is a \<open>rat\<close>;
    where the code multiplies, divides or sums numbers whose result a double may not
    hold (the rewards, the stake sums) the operations are those of doubles, with their
    rounding;
  \<^item> \<open>Date.now()\<close> and \<open>randomBytes\<close> are inputs of the function that reads them;
  \<^item> the cryptographic primitives (BLAKE3, the Kyber decapsulation check, the serialised
    size of a block) are parameters of the functions that call them, and so are the
    methods that the managers call on \<open>KyberUtils\<close> and that the class does not define
    (\<open>generateValidatorProof\<close>, \<open>generateRandomBytes\<close>, \<open>generateCrossShardProof\<close>,
    \<open>generateFinalizationProof\<close>);
  \<^item> a class or method is the one of that name; how the modules \<open>require\<close> one another
    is not modelled;
  \<^item> a thrown \<open>Error\<close> is a value of an error datatype; a function that mutates the
    object it is called on returns the new object;
  \<^item> an \<open>async\<close> function is modelled by the value its promise resolves to, except where
    the source uses a promise without awaiting it: there the promise is a value of its
    own (\<open>PromiseOf\<close>), truthy whatever it resolves to.
\<close>

section \<open>Configuration\<close>

text \<open>\<open>BlockValidation\<close>'s static fields.\<close>

definition BLOCK_GENERATION_INTERVAL :: int where
  "BLOCK_GENERATION_INTERVAL = 10000"

definition DIFFICULTY_ADJUSTMENT_INTERVAL :: nat where
  "DIFFICULTY_ADJUSTMENT_INTERVAL = 10"

definition MAX_BLOCK_SIZE :: nat where
  "MAX_BLOCK_SIZE = 1000000"

definition MIN_DIFFICULTY :: int where
  "MIN_DIFFICULTY = 4"

definition MAX_DIFFICULTY :: int where
  "MAX_DIFFICULTY = 24"

section \<open>Values\<close>

text \<open>
  What a JavaScript expression used as a condition can be here: a boolean, or the promise
  of a boolean that nobody awaited.
\<close>

datatype js_value = Boolean bool | PromiseOf bool

fun truthy :: "js_value \<Rightarrow> bool" where
  "truthy (Boolean b) = b"
| "truthy (PromiseOf b) = True"

fun resolved :: "js_value \<Rightarrow> bool" where
  "resolved (Boolean b) = b"
| "resolved (PromiseOf b) = b"

text \<open>A quantum proof: \<open>{ signature, randomness }\<close>, two hex strings.\<close>

record quantum_proof =
  signature :: string
  randomness :: string

text \<open>\<open>Transaction\<close>; \<open>blockHeight\<close> is read by \<open>isValid\<close> and set by no constructor.\<close>

record transaction =
  tx_sender :: string
  tx_recipient :: string
  tx_amount :: rat
  tx_timestamp :: int
  tx_data :: string
  tx_senderPublicKey :: string
  tx_signature :: "quantum_proof option"
  tx_nonce :: int
  tx_hash :: string
  tx_blockHeight :: "nat option"

text \<open>\<open>Block\<close>; \<open>minerPublicKey\<close> is read by \<open>validateQuantumProof\<close> and set by no constructor.\<close>

record block =
  timestamp :: int
  lastHash :: string
  hash :: string
  transactions :: "transaction list"
  nonce :: int
  difficulty :: int
  quantumProof :: "quantum_proof option"
  merkleRoot :: "string option"
  minerPublicKey :: "string option"

section \<open>KyberUtils\<close>

definition hexDigit :: "nat \<Rightarrow> char" where
  "hexDigit n = ''0123456789abcdef'' ! (n mod 16)"

text \<open>\<open>Buffer.from(s).toString("hex")\<close>: two hex digits for every byte.\<close>

definition toHex :: "string \<Rightarrow> string" where
  "toHex s = concat (map (\<lambda>c. [hexDigit (of_char c div 16), hexDigit (of_char c)]) s)"

text \<open>
  \<open>generateDeterministicProof(seed)\<close>. The second argument is what \<open>randomBytes(32)\<close>
  returns in this call.
\<close>

definition generateDeterministicProof :: "string \<Rightarrow> string \<Rightarrow> quantum_proof" where
  "generateDeterministicProof seed rnd = \<lparr>signature = toHex seed, randomness = toHex rnd\<rparr>"

definition generateInitialQuantumProof :: "string \<Rightarrow> quantum_proof" where
  "generateInitialQuantumProof rnd = generateDeterministicProof ''quantum-genesis-seed'' rnd"

text \<open>
  \<open>verifySignature(message, proof, publicKey)\<close>. \<open>K\<close> is the Kyber check (decapsulate and
  compare); a missing proof or key makes the body throw, and the \<open>catch\<close> returns false.
\<close>

definition verifySignature ::
  "(string \<Rightarrow> quantum_proof \<Rightarrow> string \<Rightarrow> bool) \<Rightarrow> string \<Rightarrow> quantum_proof option \<Rightarrow> string option \<Rightarrow> bool"
where
  "verifySignature K message prf publicKey =
     (case prf of
        None \<Rightarrow> False
      | Some p \<Rightarrow> (case publicKey of None \<Rightarrow> False | Some k \<Rightarrow> K message p k))"

definition verifyBlockProof ::
  "(string \<Rightarrow> quantum_proof \<Rightarrow> string \<Rightarrow> bool) \<Rightarrow> string \<Rightarrow> quantum_proof option \<Rightarrow> string option \<Rightarrow> bool"
where
  "verifyBlockProof K blockHash prf publicKey = verifySignature K blockHash prf publicKey"

section \<open>Block\<close>

text \<open>
  \<open>Block.genesis()\<close>. The constructor fills \<open>nonce\<close> with its default 0 and \<open>merkleRoot\<close>
  with \<open>calculateMerkleRoot()\<close>, which is \<open>null\<close> for no transactions.
\<close>

definition genesis :: "string \<Rightarrow> block" where
  "genesis rnd =
     \<lparr>timestamp = 1683900000000, lastHash = ''-----'', hash = ''genesis-hash'',
      transactions = [], nonce = 0, difficulty = 4,
      quantumProof = Some (generateInitialQuantumProof rnd),
      merkleRoot = None, minerPublicKey = None\<rparr>"

text \<open>\<open>toJSON()\<close>: the eight fields that \<open>JSON.stringify\<close> writes.\<close>

definition toJSON ::
  "block \<Rightarrow> int \<times> string \<times> string \<times> transaction list \<times> int \<times> int \<times> quantum_proof option \<times> string option"
where
  "toJSON b =
     (timestamp b, lastHash b, hash b, transactions b, nonce b, difficulty b,
      quantumProof b, merkleRoot b)"

section \<open>BlockValidation\<close>

text \<open>
  \<open>validateBlockStructure\<close>: the \<open>typeof\<close> tests hold by the types of the record; what is
  left is \<open>quantumProof !== null\<close>.
\<close>

definition validateBlockStructure :: "block \<Rightarrow> bool" where
  "validateBlockStructure b = (quantumProof b \<noteq> None)"

text \<open>\<open>validateBlockHash\<close>; \<open>H\<close> is \<open>Block.hash\<close> (BLAKE3 of the five header fields).\<close>

definition validateBlockHash ::
  "(int \<Rightarrow> string \<Rightarrow> transaction list \<Rightarrow> int \<Rightarrow> int \<Rightarrow> string) \<Rightarrow> block \<Rightarrow> bool"
where
  "validateBlockHash H b =
     (hash b = H (timestamp b) (lastHash b) (transactions b) (nonce b) (difficulty b))"

definition validateBlockChain :: "block \<Rightarrow> block option \<Rightarrow> bool" where
  "validateBlockChain b lastBlock =
     (case lastBlock of
        None \<Rightarrow> lastHash b = ''-----''
      | Some l \<Rightarrow>
          lastHash b = hash l \<and> timestamp b > timestamp l \<and>
          \<bar>difficulty b - difficulty l\<bar> \<le> 1)"

text \<open>
  \<open>validateQuantumProof\<close> is not \<open>async\<close> and returns what \<open>verifyBlockProof\<close> returns:
  the promise of \<open>verifySignature\<close>, which it does not await.
\<close>

definition validateQuantumProof ::
  "(string \<Rightarrow> quantum_proof \<Rightarrow> string \<Rightarrow> bool) \<Rightarrow> block \<Rightarrow> js_value"
where
  "validateQuantumProof K b =
     PromiseOf (verifyBlockProof K (hash b) (quantumProof b) (minerPublicKey b))"

text \<open>\<open>validateBlockSize\<close>; \<open>S\<close> is \<open>getBlockSize\<close>, the byte length of the block's JSON.\<close>

definition validateBlockSize :: "(block \<Rightarrow> nat) \<Rightarrow> block \<Rightarrow> bool" where
  "validateBlockSize S b = (S b \<le> MAX_BLOCK_SIZE)"

definition isValidBlock ::
  "(int \<Rightarrow> string \<Rightarrow> transaction list \<Rightarrow> int \<Rightarrow> int \<Rightarrow> string) \<Rightarrow> (block \<Rightarrow> nat) \<Rightarrow>
   (string \<Rightarrow> quantum_proof \<Rightarrow> string \<Rightarrow> bool) \<Rightarrow> block \<Rightarrow> block option \<Rightarrow> bool"
where
  "isValidBlock H S K b lastBlock =
     (validateBlockStructure b \<and> validateBlockHash H b \<and> validateBlockChain b lastBlock \<and>
      truthy (validateQuantumProof K b) \<and> validateBlockSize S b)"

text \<open>\<open>adjustDifficulty({ originalBlock, timestamp })\<close>.\<close>

definition adjustDifficulty :: "block \<Rightarrow> int \<Rightarrow> int" where
  "adjustDifficulty originalBlock ts =
     (if difficulty originalBlock < MIN_DIFFICULTY then MIN_DIFFICULTY
      else if difficulty originalBlock > MAX_DIFFICULTY then MAX_DIFFICULTY
      else if ts - timestamp originalBlock > BLOCK_GENERATION_INTERVAL * 2
        then max (difficulty originalBlock - 1) MIN_DIFFICULTY
      else if ts - timestamp originalBlock < BLOCK_GENERATION_INTERVAL div 2
        then min (difficulty originalBlock + 1) MAX_DIFFICULTY
      else difficulty originalBlock)"

text \<open>
  \<open>validateDifficultyAdjustment(blocks)\<close>: \<open>expectedTime / 4\<close> is 25000 exactly, so the
  division is the one of integers.
\<close>

definition validateDifficultyAdjustment :: "block list \<Rightarrow> bool" where
  "validateDifficultyAdjustment blocks =
     (if length blocks < DIFFICULTY_ADJUSTMENT_INTERVAL then True
      else
        let lastBlock = blocks ! (length blocks - 1);
            lastAdjustmentBlock = blocks ! (length blocks - DIFFICULTY_ADJUSTMENT_INTERVAL);
            expectedTime = BLOCK_GENERATION_INTERVAL * int DIFFICULTY_ADJUSTMENT_INTERVAL;
            actualTime = timestamp lastBlock - timestamp lastAdjustmentBlock;
            deviation = \<bar>actualTime - expectedTime\<bar>
        in deviation \<le> expectedTime div 4)"

section \<open>Blockchain\<close>

datatype chain_error = ChainNotLonger | ChainInvalid

text \<open>
  The state of a \<open>Blockchain\<close> that the operations below read and write: the chain and
  what the storage collaborator holds.
\<close>

record 'db blockchain =
  bc_chain :: "block list"
  bc_db :: 'db

text \<open>The loop of \<open>isValidChain\<close>, from index \<open>i\<close>.\<close>

function validPairsFrom ::
  "(int \<Rightarrow> string \<Rightarrow> transaction list \<Rightarrow> int \<Rightarrow> int \<Rightarrow> string) \<Rightarrow> (block \<Rightarrow> nat) \<Rightarrow>
   (string \<Rightarrow> quantum_proof \<Rightarrow> string \<Rightarrow> bool) \<Rightarrow> nat \<Rightarrow> block list \<Rightarrow> bool"
where
  "validPairsFrom H S K i c =
     (if i < length c
      then (if \<not> isValidBlock H S K (c ! i) (Some (c ! (i - 1))) then False
            else validPairsFrom H S K (Suc i) c)
      else True)"
  by pat_completeness auto
termination
  by (relation "measure (\<lambda>(H, S, K, i, c). length c - i)") auto

declare validPairsFrom.simps [simp del]

text \<open>
  \<open>isValidChain(chain)\<close>. \<open>rnd\<close> is what \<open>randomBytes(32)\<close> returns inside the
  \<open>Block.genesis()\<close> of this call. \<open>chain[0]\<close> of an empty array is \<open>undefined\<close>, whose
  \<open>JSON.stringify\<close> is not a string.
\<close>

definition isValidChain ::
  "(int \<Rightarrow> string \<Rightarrow> transaction list \<Rightarrow> int \<Rightarrow> int \<Rightarrow> string) \<Rightarrow> (block \<Rightarrow> nat) \<Rightarrow>
   (string \<Rightarrow> quantum_proof \<Rightarrow> string \<Rightarrow> bool) \<Rightarrow> string \<Rightarrow> block list \<Rightarrow> bool"
where
  "isValidChain H S K rnd c =
     (case c of
        [] \<Rightarrow> False
      | first # _ \<Rightarrow>
          if toJSON first \<noteq> toJSON (genesis rnd) then False
          else if \<not> validPairsFrom H S K 1 c then False
          else validateDifficultyAdjustment c)"

text \<open>
  \<open>replaceChain(newChain)\<close>. \<open>save\<close> is \<open>db.saveChain\<close>: the storage after the call and
  whether the call returned (\<open>True\<close>) or threw.
\<close>

definition replaceChain ::
  "(int \<Rightarrow> string \<Rightarrow> transaction list \<Rightarrow> int \<Rightarrow> int \<Rightarrow> string) \<Rightarrow> (block \<Rightarrow> nat) \<Rightarrow>
   (string \<Rightarrow> quantum_proof \<Rightarrow> string \<Rightarrow> bool) \<Rightarrow> string \<Rightarrow>
   ('db \<Rightarrow> block list \<Rightarrow> 'db \<times> bool) \<Rightarrow> block list \<Rightarrow> 'db blockchain \<Rightarrow>
   (chain_error + bool) \<times> 'db blockchain"
where
  "replaceChain H S K rnd save newChain bc =
     (if length newChain \<le> length (bc_chain bc) then (Inl ChainNotLonger, bc)
      else if \<not> isValidChain H S K rnd newChain then (Inl ChainInvalid, bc)
      else
        (case save (bc_db bc) newChain of
           (db', True) \<Rightarrow> (Inr True, bc\<lparr>bc_db := db', bc_chain := newChain\<rparr>)
         | (db', False) \<Rightarrow> (Inr False, bc\<lparr>bc_db := db'\<rparr>)))"

text \<open>\<open>getBlockByHeight(height)\<close>; \<open>None\<close> is \<open>null\<close>.\<close>

definition getBlockByHeight :: "int \<Rightarrow> 'db blockchain \<Rightarrow> block option" where
  "getBlockByHeight height bc =
     (if height < 0 \<or> height \<ge> int (length (bc_chain bc)) then None
      else Some (bc_chain bc ! nat height))"

section \<open>Transaction\<close>

definition COINBASE_SENDER :: string where
  "COINBASE_SENDER = ''0000000000000000000000000000000000000000''"

text \<open>
  \<open>calculateHash()\<close>; \<open>T\<close> is BLAKE3 of the six fields that the template string joins.
\<close>

definition calculateHash ::
  "(string \<Rightarrow> string \<Rightarrow> rat \<Rightarrow> int \<Rightarrow> string \<Rightarrow> int \<Rightarrow> string) \<Rightarrow> transaction \<Rightarrow> string"
where
  "calculateHash T tx =
     T (tx_sender tx) (tx_recipient tx) (tx_amount tx) (tx_timestamp tx) (tx_data tx) (tx_nonce tx)"

text \<open>
  \<open>verify()\<close>. The second component counts the calls of \<open>KyberUtils.verifySignature\<close>.
  An empty string is falsy, as \<open>null\<close> is.
\<close>

definition verify ::
  "(string \<Rightarrow> quantum_proof \<Rightarrow> string \<Rightarrow> bool) \<Rightarrow> transaction \<Rightarrow> bool \<times> nat"
where
  "verify K tx =
     (if tx_signature tx = None \<or> tx_senderPublicKey tx = [] then (False, 0)
      else (verifySignature K (tx_hash tx) (tx_signature tx) (Some (tx_senderPublicKey tx)), 1))"

text \<open>
  \<open>calculateBlockReward(blockHeight)\<close> for a height that is a natural number.
  \<open>Math.pow(2, halvings)\<close> is \<open>Infinity\<close> from 1024 halvings on, and \<open>50 / Infinity\<close> is 0;
  below that the quotient is a double, exactly.
\<close>

definition calculateBlockReward :: "nat \<Rightarrow> rat" where
  "calculateBlockReward blockHeight =
     (let initialReward = 50;
          halvingInterval = 210000;
          halvings = blockHeight div halvingInterval
      in if halvings \<ge> 1024 then 0 else initialReward / 2 ^ halvings)"

text \<open>
  \<open>isValid()\<close>, with the number of calls of \<open>KyberUtils.verifySignature\<close> it made.
  The method is not \<open>async\<close>: its last line returns the promise of \<open>verify()\<close>. With
  \<open>blockHeight\<close> undefined the reward is \<open>NaN\<close>, which \<open>===\<close> equates with nothing.
\<close>

definition isValid ::
  "(string \<Rightarrow> string \<Rightarrow> rat \<Rightarrow> int \<Rightarrow> string \<Rightarrow> int \<Rightarrow> string) \<Rightarrow>
   (string \<Rightarrow> quantum_proof \<Rightarrow> string \<Rightarrow> bool) \<Rightarrow> transaction \<Rightarrow> js_value \<times> nat"
where
  "isValid T K tx =
     (if tx_hash tx \<noteq> calculateHash T tx then (Boolean False, 0)
      else if tx_amount tx \<le> 0 then (Boolean False, 0)
      else if tx_sender tx = tx_recipient tx then (Boolean False, 0)
      else if tx_sender tx = COINBASE_SENDER then
        (Boolean (case tx_blockHeight tx of
                    None \<Rightarrow> False
                  | Some h \<Rightarrow> tx_amount tx = calculateBlockReward h), 0)
      else (case verify K tx of (b, n) \<Rightarrow> (PromiseOf b, n)))"

section \<open>Numbers\<close>

text \<open>
  The arithmetic of JavaScript numbers: every sum, product and quotient is the exact
  result rounded to the nearest double, ties to the even significand (IEEE 754 binary64).
  A finite double is a rational number. \<open>findExponent\<close> looks for the binary exponent from
  1023 downwards and stops at -1022, below which doubles are subnormal and keep the
  spacing of that exponent. A result of magnitude \<open>2^1024\<close> or more, which JavaScript
  turns into \<open>Infinity\<close>, is outside what the functions below are used for.
\<close>

definition roundHalfEven :: "rat \<Rightarrow> int" where
  "roundHalfEven y =
     (let f = \<lfloor>y\<rfloor>; d = y - of_int f
      in if d < 1 / 2 then f else if 1 / 2 < d then f + 1 else if even f then f else f + 1)"

fun findExponent :: "nat \<Rightarrow> rat \<Rightarrow> int" where
  "findExponent 0 a = - 1022"
| "findExponent (Suc k) a =
     (if 2 powi (int (Suc k) - 1022) \<le> a then int (Suc k) - 1022 else findExponent k a)"

definition roundDouble :: "rat \<Rightarrow> rat" where
  "roundDouble x =
     (let a = \<bar>x\<bar>;
          e = findExponent 2045 a;
          m = roundHalfEven (a * 2 powi (52 - e))
      in sgn x * of_int m * 2 powi (e - 52))"


definition jsMul :: "rat \<Rightarrow> rat \<Rightarrow> rat" where
  "jsMul a b = roundDouble (a * b)"

definition jsDiv :: "rat \<Rightarrow> rat \<Rightarrow> rat" where
  "jsDiv a b = roundDouble (a / b)"

section \<open>ConsensusManager\<close>


definition validatorStake :: int where
  "validatorStake = 1000000"

definition blockReward :: int where
  "blockReward = 50"

definition maxBlockSize :: nat where
  "maxBlockSize = 1000000"

definition maxTransactionsPerBlock :: nat where
  "maxTransactionsPerBlock = 2000"

text \<open>\<open>this.minStake\<close>, which the constructor sets and nothing changes.\<close>

definition minStake :: int where
  "minStake = validatorStake"

datatype consensus_error =
  InsufficientStake | DuplicateValidator | InsufficientValidators | RangeError | CreditFailed

text \<open>A validator; \<open>stake\<close> and \<open>reputation\<close> are numbers with integer values.\<close>

record validator =
  address :: string
  stake :: int
  publicKey :: string
  blocksMined :: nat
  lastActive :: int
  reputation :: int
  validatorProof :: string

text \<open>
  The manager: the validator registry and the per-epoch bookkeeping (both \<open>Map\<close>s) and
  the epoch counter. \<open>rewardCredits\<close> stands for the collaborator behind
  \<open>this.blockchain.distributeValidatorReward(address, amount)\<close>, a method that
  \<open>Blockchain\<close> does not define: it holds the calls that returned, oldest first.
\<close>

record consensusManager =
  validators :: "(string \<times> validator) list"
  currentEpoch :: nat
  epochBlocks :: "(nat \<times> (string \<times> block list) list) list"
  rewardCredits :: "(string \<times> int) list"

definition newConsensusManager :: consensusManager where
  "newConsensusManager =
     \<lparr>validators = [], currentEpoch = 0, epochBlocks = [], rewardCredits = []\<rparr>"

text \<open>
  \<open>registerValidator(address, stake, publicKey)\<close>; \<open>G\<close> is
  \<open>KyberUtils.generateValidatorProof\<close>, \<open>now\<close> is \<open>Date.now()\<close>.
\<close>

definition registerValidator ::
  "(string \<Rightarrow> string) \<Rightarrow> int \<Rightarrow> string \<Rightarrow> int \<Rightarrow> string \<Rightarrow> consensusManager \<Rightarrow>
   consensus_error + validator \<times> consensusManager"
where
  "registerValidator G now addr stk pk cm =
     (if stk < minStake then Inl InsufficientStake
      else if map_of (validators cm) addr \<noteq> None then Inl DuplicateValidator
      else
        let validatorInfo =
              \<lparr>address = addr, stake = stk, publicKey = pk, blocksMined = 0,
               lastActive = now, reputation = 100, validatorProof = G pk\<rparr>
        in Inr (validatorInfo, cm\<lparr>validators := AList.update addr validatorInfo (validators cm)\<rparr>))"

definition isValidatorActive :: "int \<Rightarrow> validator \<Rightarrow> bool" where
  "isValidatorActive now v =
     (let inactiveThreshold = now - 24 * 60 * 60 * 1000
      in lastActive v > inactiveThreshold \<and> reputation v \<ge> 50)"




text \<open>\<open>assessBlockQuality(block)\<close>; \<open>S\<close> is \<open>getBlockSize\<close>.\<close>

definition assessBlockQuality :: "(block \<Rightarrow> nat) \<Rightarrow> int \<Rightarrow> block \<Rightarrow> int" where
  "assessBlockQuality S now b =
     (if S b \<le> maxBlockSize then 5 else 0)
     + (if length (transactions b) \<le> maxTransactionsPerBlock then 5 else 0)
     + (if now - timestamp b \<le> 1000 then 5 else 0)"

definition updateValidatorStats ::
  "(block \<Rightarrow> nat) \<Rightarrow> int \<Rightarrow> string \<Rightarrow> block \<Rightarrow> consensusManager \<Rightarrow> consensusManager"
where
  "updateValidatorStats S now addr b cm =
     (case map_of (validators cm) addr of
        None \<Rightarrow> cm
      | Some v \<Rightarrow>
          let blockQuality = assessBlockQuality S now b;
              v' = v\<lparr>blocksMined := blocksMined v + 1, lastActive := now,
                     reputation := max 0 (min 100 (reputation v + blockQuality))\<rparr>
          in cm\<lparr>validators := AList.update addr v' (validators cm)\<rparr>)"

text \<open>\<open>validateBlock(block, validator)\<close> of the manager, which awaits the verification.\<close>

definition validateBlock ::
  "(string \<Rightarrow> quantum_proof \<Rightarrow> string \<Rightarrow> bool) \<Rightarrow> (block \<Rightarrow> nat) \<Rightarrow> int \<Rightarrow> block \<Rightarrow> validator \<Rightarrow>
   consensusManager \<Rightarrow> bool \<times> consensusManager"
where
  "validateBlock K S now b v cm =
     (if \<not> verifyBlockProof K (hash b) (quantumProof b) (Some (publicKey v)) then (False, cm)
      else if \<not> isValidatorActive now v then (False, cm)
      else (True, updateValidatorStats S now (address v) b cm))"

text \<open>The reward of one validator in \<open>calculateValidatorRewards\<close>, in doubles.\<close>

definition totalReward :: "block list \<Rightarrow> validator \<Rightarrow> int" where
  "totalReward blocks v =
     (let baseReward = jsMul (of_nat (length blocks)) (of_int blockReward);
          stakeWeight = jsDiv (of_int (stake v)) (of_int minStake);
          reputationWeight = jsDiv (of_int (reputation v)) 100
      in \<lfloor>jsMul (jsMul baseReward stakeWeight) reputationWeight\<rfloor>)"

text \<open>The loop of \<open>calculateValidatorRewards\<close> over the entries of the epoch's map.\<close>

fun rewardLoop ::
  "consensusManager \<Rightarrow> (string \<times> block list) list \<Rightarrow> (string \<times> int) list \<Rightarrow>
   (string \<times> int) list"
where
  "rewardLoop cm [] rewards = rewards"
| "rewardLoop cm ((addr, blocks) # rest) rewards =
     (case map_of (validators cm) addr of
        None \<Rightarrow> rewardLoop cm rest rewards
      | Some v \<Rightarrow> rewardLoop cm rest (AList.update addr (totalReward blocks v) rewards))"

definition calculateValidatorRewards :: "nat \<Rightarrow> consensusManager \<Rightarrow> (string \<times> int) list" where
  "calculateValidatorRewards epoch cm =
     (let epochValidators = (case map_of (epochBlocks cm) epoch of None \<Rightarrow> [] | Some m \<Rightarrow> m)
      in rewardLoop cm epochValidators [])"

text \<open>
  The loop of \<open>distributeRewards\<close>. \<open>C address amount\<close> says whether the awaited call of
  \<open>distributeValidatorReward\<close> for that address and amount returns; a call that throws
  ends the loop and credits nothing. The result says whether the loop ran to its end.
\<close>

fun creditLoop ::
  "(string \<Rightarrow> int \<Rightarrow> bool) \<Rightarrow> (string \<times> int) list \<Rightarrow> consensusManager \<Rightarrow>
   bool \<times> consensusManager"
where
  "creditLoop C [] cm = (True, cm)"
| "creditLoop C ((addr, amount) # rest) cm =
     (if C addr amount
      then creditLoop C rest (cm\<lparr>rewardCredits := rewardCredits cm @ [(addr, amount)]\<rparr>)
      else (False, cm))"

text \<open>\<open>distributeRewards(epoch)\<close>, with the error it threw, if any.\<close>

definition distributeRewards ::
  "(string \<Rightarrow> int \<Rightarrow> bool) \<Rightarrow> nat \<Rightarrow> consensusManager \<Rightarrow>
   consensus_error option \<times> consensusManager"
where
  "distributeRewards C epoch cm =
     (let rewards = calculateValidatorRewards epoch cm
      in case creditLoop C rewards cm of
           (False, cm') \<Rightarrow> (Some CreditFailed, cm')
         | (True, cm') \<Rightarrow>
             (None,
              cm'\<lparr>epochBlocks := AList.delete epoch (epochBlocks cm'),
                   currentEpoch := currentEpoch cm' + 1\<rparr>))"

text \<open>The operations that write to the manager, and a run of them from the constructor.\<close>

datatype consensus_op =
    RegisterValidator int string int string
  | ValidateBlock int block validator
  | UpdateValidatorStats int string block
  | DistributeRewards nat

fun applyOp ::
  "(string \<Rightarrow> string) \<Rightarrow> (string \<Rightarrow> quantum_proof \<Rightarrow> string \<Rightarrow> bool) \<Rightarrow> (block \<Rightarrow> nat) \<Rightarrow>
   (string \<Rightarrow> int \<Rightarrow> bool) \<Rightarrow> consensusManager \<Rightarrow> consensus_op \<Rightarrow> consensusManager"
where
  "applyOp G K S C cm (RegisterValidator now addr stk pk) =
     (case registerValidator G now addr stk pk cm of Inl e \<Rightarrow> cm | Inr (v, cm') \<Rightarrow> cm')"
| "applyOp G K S C cm (ValidateBlock now b v) = snd (validateBlock K S now b v cm)"
| "applyOp G K S C cm (UpdateValidatorStats now addr b) = updateValidatorStats S now addr b cm"
| "applyOp G K S C cm (DistributeRewards epoch) = snd (distributeRewards C epoch cm)"

definition reputationsInRange :: "consensusManager \<Rightarrow> bool" where
  "reputationsInRange cm =
     list_all (\<lambda>(a, v). 0 \<le> reputation v \<and> reputation v \<le> 100) (validators cm)"

section \<open>ShardManager\<close>

text \<open>\<open>config.sharding.totalShards\<close> and \<open>config.sharding.minValidatorsPerShard\<close>.\<close>

definition totalShards :: nat where
  "totalShards = 16"

definition minValidatorsPerShard :: nat where
  "minValidatorsPerShard = 4"

datatype shard_error = InvalidShard | InsufficientSignatures | TypeError

datatype cross_status = Pending | Processing | Completed

text \<open>
  The entry of the tracking table. \<open>sourceShard\<close> and \<open>targetShard\<close> are what
  \<open>Array.from(this.shards.keys())[index]\<close> gave: \<open>None\<close> is \<open>undefined\<close>.
\<close>

record crossShardTx =
  cs_transaction :: transaction
  cs_sourceShard :: "string option"
  cs_targetShard :: "string option"
  cs_proof :: string
  cs_status :: cross_status
  cs_timestamp :: int
  cs_finalizationProof :: "string option"
  cs_completedAt :: "int option"

record shard =
  sh_id :: string
  sh_chain :: "block list"
  sh_state :: "(string \<times> string) list"
  sh_pendingTransactions :: "(string \<times> transaction) list"
  sh_lastProcessedBlock :: "block option"
  sh_validatorSet :: "string list"

record shardManager =
  shards :: "(string \<times> shard) list"
  shardValidators :: "(string \<times> string) list"
  crossShardTransactions :: "(string \<times> crossShardTx) list"

text \<open>What \<open>processTransaction\<close> returns: a shard id, or \<open>{ sourceShard, targetShard }\<close>.\<close>

datatype routed = Local string | Cross "string option" "string option"

text \<open>
  A write to the shard object that \<open>this.shards.get(id)\<close> returns; \<open>None\<close> when there is
  no such object, where the source throws a \<open>TypeError\<close>.
\<close>

definition modifyShard ::
  "string option \<Rightarrow> (shard \<Rightarrow> shard) \<Rightarrow> shardManager \<Rightarrow> shardManager option"
where
  "modifyShard sid f sm =
     (case sid of
        None \<Rightarrow> None
      | Some i \<Rightarrow>
          (case map_of (shards sm) i of
             None \<Rightarrow> None
           | Some sh \<Rightarrow> Some (sm\<lparr>shards := AList.update i (f sh) (shards sm)\<rparr>)))"

text \<open>
  \<open>getAddressShard(address)\<close>; \<open>A\<close> is the BLAKE3 digest of the address read as a number.
\<close>

definition getAddressShard :: "(string \<Rightarrow> nat) \<Rightarrow> shardManager \<Rightarrow> string \<Rightarrow> string option" where
  "getAddressShard A sm addr =
     (let shardIndex = A addr mod totalShards
      in if shardIndex < length (shards sm) then Some (map fst (shards sm) ! shardIndex)
         else None)"

definition getTransactionShard ::
  "(string \<Rightarrow> nat) \<Rightarrow> shardManager \<Rightarrow> transaction \<Rightarrow> string option"
where
  "getTransactionShard A sm tx =
     (let shardIndex = A (tx_sender tx) mod totalShards
      in if shardIndex < length (shards sm) then Some (map fst (shards sm) ! shardIndex)
         else None)"

definition isCrossShardTransaction :: "(string \<Rightarrow> nat) \<Rightarrow> shardManager \<Rightarrow> transaction \<Rightarrow> bool" where
  "isCrossShardTransaction A sm tx =
     (getTransactionShard A sm tx \<noteq> getAddressShard A sm (tx_recipient tx))"

text \<open>How a template string prints a shard id.\<close>

definition idText :: "string option \<Rightarrow> string" where
  "idText i = (case i of None \<Rightarrow> ''undefined'' | Some s \<Rightarrow> s)"

text \<open>
  \<open>generateCrossShardProof\<close>; \<open>P\<close> is \<open>KyberUtils.generateCrossShardProof\<close> after BLAKE3.
\<close>

definition generateCrossShardProof ::
  "(string \<Rightarrow> string) \<Rightarrow> transaction \<Rightarrow> string option \<Rightarrow> string option \<Rightarrow> string"
where
  "generateCrossShardProof P tx sourceShard targetShard =
     P (tx_hash tx @ idText sourceShard @ idText targetShard)"

text \<open>
  \<open>processCrossShardTransaction(transaction)\<close>. The state comes back with the error: the
  writes made before a throw stay.
\<close>

definition processCrossShardTransaction ::
  "(string \<Rightarrow> nat) \<Rightarrow> (string \<Rightarrow> string) \<Rightarrow> int \<Rightarrow> transaction \<Rightarrow> shardManager \<Rightarrow>
   (shard_error + routed) \<times> shardManager"
where
  "processCrossShardTransaction A P now tx sm =
     (let sourceShard = getTransactionShard A sm tx;
          targetShard = getAddressShard A sm (tx_recipient tx);
          crossShardTx =
            \<lparr>cs_transaction = tx, cs_sourceShard = sourceShard, cs_targetShard = targetShard,
             cs_proof = generateCrossShardProof P tx sourceShard targetShard,
             cs_status = Pending, cs_timestamp = now,
             cs_finalizationProof = None, cs_completedAt = None\<rparr>;
          sm1 = sm\<lparr>crossShardTransactions :=
                  AList.update (tx_hash tx) crossShardTx (crossShardTransactions sm)\<rparr>;
          add = (\<lambda>sh. sh\<lparr>sh_pendingTransactions :=
                  AList.update (tx_hash tx) tx (sh_pendingTransactions sh)\<rparr>)
      in case modifyShard sourceShard add sm1 of
           None \<Rightarrow> (Inl TypeError, sm1)
         | Some sm2 \<Rightarrow>
             (case modifyShard targetShard add sm2 of
                None \<Rightarrow> (Inl TypeError, sm2)
              | Some sm3 \<Rightarrow> (Inr (Cross sourceShard targetShard), sm3)))"

definition processTransaction ::
  "(string \<Rightarrow> nat) \<Rightarrow> (string \<Rightarrow> string) \<Rightarrow> int \<Rightarrow> transaction \<Rightarrow> shardManager \<Rightarrow>
   (shard_error + routed) \<times> shardManager"
where
  "processTransaction A P now tx sm =
     (case getTransactionShard A sm tx of
        None \<Rightarrow> (Inl InvalidShard, sm)
      | Some shardId \<Rightarrow>
          (case map_of (shards sm) shardId of
             None \<Rightarrow> (Inl InvalidShard, sm)
           | Some sh \<Rightarrow>
               if isCrossShardTransaction A sm tx then processCrossShardTransaction A P now tx sm
               else
                 (Inr (Local shardId),
                  sm\<lparr>shards := AList.update shardId
                    (sh\<lparr>sh_pendingTransactions :=
                        AList.update (tx_hash tx) tx (sh_pendingTransactions sh)\<rparr>)
                    (shards sm)\<rparr>)))"

text \<open>
  \<open>verifyValidatorSignatures(block, signatures)\<close>: the keys whose signature over the block
  hash verifies, each once, as the \<open>Set\<close> holds them.
\<close>

fun verifyValidatorSignatures ::
  "(string \<Rightarrow> quantum_proof \<Rightarrow> string \<Rightarrow> bool) \<Rightarrow> block \<Rightarrow> (string \<times> quantum_proof) list \<Rightarrow>
   string list \<Rightarrow> string list"
where
  "verifyValidatorSignatures K b [] validSignatures = validSignatures"
| "verifyValidatorSignatures K b ((validatorKey, sg) # rest) validSignatures =
     verifyValidatorSignatures K b rest
       (if verifySignature K (hash b) (Some sg) (Some validatorKey)
        then List.insert validatorKey validSignatures else validSignatures)"

definition updateCrossShardTransaction ::
  "string \<Rightarrow> cross_status \<Rightarrow> shardManager \<Rightarrow> shardManager"
where
  "updateCrossShardTransaction txHash status sm =
     (case map_of (crossShardTransactions sm) txHash of
        None \<Rightarrow> sm
      | Some c \<Rightarrow>
          sm\<lparr>crossShardTransactions :=
               AList.update txHash (c\<lparr>cs_status := status\<rparr>) (crossShardTransactions sm)\<rparr>)"

text \<open>
  \<open>generateFinalizationProof\<close>; \<open>F\<close> is \<open>KyberUtils.generateFinalizationProof\<close> after
  BLAKE3, of the joined string without the clock reading and of the clock reading.
\<close>

definition generateFinalizationProof ::
  "(string \<Rightarrow> int \<Rightarrow> string) \<Rightarrow> int \<Rightarrow> crossShardTx \<Rightarrow> string"
where
  "generateFinalizationProof F now c =
     F (tx_hash (cs_transaction c) @ idText (cs_sourceShard c) @ idText (cs_targetShard c)) now"

text \<open>\<open>finalizeCrossShardTransaction(txHash)\<close>, with the error it threw, if any.\<close>

definition finalizeCrossShardTransaction ::
  "(string \<Rightarrow> int \<Rightarrow> string) \<Rightarrow> int \<Rightarrow> string \<Rightarrow> shardManager \<Rightarrow>
   shard_error option \<times> shardManager"
where
  "finalizeCrossShardTransaction F now txHash sm =
     (case map_of (crossShardTransactions sm) txHash of
        None \<Rightarrow> (None, sm)
      | Some c \<Rightarrow>
          let prf = generateFinalizationProof F now c;
              del = (\<lambda>sh. sh\<lparr>sh_pendingTransactions :=
                      AList.delete txHash (sh_pendingTransactions sh)\<rparr>)
          in case modifyShard (cs_sourceShard c) del sm of
               None \<Rightarrow> (Some TypeError, sm)
             | Some sm1 \<Rightarrow>
                 (case modifyShard (cs_targetShard c) del sm1 of
                    None \<Rightarrow> (Some TypeError, sm1)
                  | Some sm2 \<Rightarrow>
                      (None,
                       sm2\<lparr>crossShardTransactions :=
                         AList.update txHash
                           (c\<lparr>cs_status := Completed, cs_finalizationProof := Some prf,
                              cs_completedAt := Some now\<rparr>)
                           (crossShardTransactions sm2)\<rparr>)))"

text \<open>The body of the loop of \<open>processCrossShardTransactions\<close> for one transaction.\<close>

definition crossStep ::
  "(string \<Rightarrow> int \<Rightarrow> string) \<Rightarrow> int \<Rightarrow> transaction \<Rightarrow> shardManager \<Rightarrow>
   shard_error option \<times> shardManager"
where
  "crossStep F now tx sm =
     (case map_of (crossShardTransactions sm) (tx_hash tx) of
        None \<Rightarrow> (None, sm)
      | Some crossShardTx \<Rightarrow>
          if cs_status crossShardTx = Pending
            then (None, updateCrossShardTransaction (tx_hash tx) Processing sm)
          else if cs_status crossShardTx = Processing
            then finalizeCrossShardTransaction F now (tx_hash tx) sm
          else (None, sm))"

fun processCrossShardTransactions ::
  "(string \<Rightarrow> int \<Rightarrow> string) \<Rightarrow> int \<Rightarrow> transaction list \<Rightarrow> shardManager \<Rightarrow>
   shard_error option \<times> shardManager"
where
  "processCrossShardTransactions F now [] sm = (None, sm)"
| "processCrossShardTransactions F now (tx # txs) sm =
     (case crossStep F now tx sm of
        (Some e, sm') \<Rightarrow> (Some e, sm')
      | (None, sm') \<Rightarrow> processCrossShardTransactions F now txs sm')"

text \<open>
  \<open>finalizeBlock(shardId, block, validatorSignatures)\<close>. The shard object fetched at the
  head of the method is the one the cross-shard processing writes to, so the last writes
  go to the shard as that processing left it.
\<close>

definition finalizeBlock ::
  "(string \<Rightarrow> quantum_proof \<Rightarrow> string \<Rightarrow> bool) \<Rightarrow> (string \<Rightarrow> int \<Rightarrow> string) \<Rightarrow> int \<Rightarrow> string \<Rightarrow>
   block \<Rightarrow> (string \<times> quantum_proof) list \<Rightarrow> shardManager \<Rightarrow>
   (shard_error + block) \<times> shardManager"
where
  "finalizeBlock K F now shardId b validatorSignatures sm =
     (case map_of (shards sm) shardId of
        None \<Rightarrow> (Inl InvalidShard, sm)
      | Some _ \<Rightarrow>
          if length (verifyValidatorSignatures K b validatorSignatures []) < minValidatorsPerShard
            then (Inl InsufficientSignatures, sm)
          else
            (case processCrossShardTransactions F now (transactions b) sm of
               (Some e, sm1) \<Rightarrow> (Inl e, sm1)
             | (None, sm1) \<Rightarrow>
                 (case modifyShard (Some shardId)
                    (\<lambda>sh. sh\<lparr>sh_chain := sh_chain sh @ [b],
                             sh_lastProcessedBlock := Some b,
                             sh_pendingTransactions :=
                               fold (\<lambda>tx p. AList.delete (tx_hash tx) p) (transactions b)
                                 (sh_pendingTransactions sh)\<rparr>) sm1 of
                    None \<Rightarrow> (Inl TypeError, sm1)
                  | Some sm2 \<Rightarrow> (Inr b, sm2))))"

text \<open>What the claims observe of a manager.\<close>

definition statusOf :: "shardManager \<Rightarrow> string \<Rightarrow> cross_status option" where
  "statusOf sm h = map_option cs_status (map_of (crossShardTransactions sm) h)"

definition pendingIn :: "shardManager \<Rightarrow> string \<Rightarrow> string \<Rightarrow> bool" where
  "pendingIn sm shardId h =
     (case map_of (shards sm) shardId of
        None \<Rightarrow> False
      | Some sh \<Rightarrow> map_of (sh_pendingTransactions sh) h \<noteq> None)"

text \<open>One step of the life cycle \<open>pending \<rightarrow> processing \<rightarrow> completed\<close>.\<close>

fun advance :: "cross_status \<Rightarrow> cross_status" where
  "advance Pending = Processing"
| "advance Processing = Completed"
| "advance Completed = Completed"

section \<open>Sample inputs\<close>

text \<open>
  Concrete inputs on which the theorems below are run. The stand-ins for the primitives
  are functions of the same arguments as the primitives; no theorem about all inputs
  depends on them.
\<close>

definition sampleHash :: "int \<Rightarrow> string \<Rightarrow> transaction list \<Rightarrow> int \<Rightarrow> int \<Rightarrow> string" where
  "sampleHash ts lh txs n d = lh @ ''+''"

definition sampleSize :: "block \<Rightarrow> nat" where
  "sampleSize b = 300 + 200 * length (transactions b)"

definition sampleKyber :: "string \<Rightarrow> quantum_proof \<Rightarrow> string \<Rightarrow> bool" where
  "sampleKyber m p k = (signature p = m @ k)"

definition mineOn :: "block \<Rightarrow> int \<Rightarrow> block" where
  "mineOn l ts =
     \<lparr>timestamp = ts, lastHash = hash l,
      hash = sampleHash ts (hash l) [] 1 (difficulty l),
      transactions = [], nonce = 1, difficulty = difficulty l,
      quantumProof = Some \<lparr>signature = ''00'', randomness = ''00''\<rparr>,
      merkleRoot = None, minerPublicKey = None\<rparr>"

fun chainOf :: "block \<Rightarrow> int list \<Rightarrow> block list" where
  "chainOf b [] = [b]"
| "chainOf b (t # ts) = b # chainOf (mineOn b t) ts"

definition drawA :: string where
  "drawA = ''AAAAAAAAAAAAAAAAAAAAAAAAAAAAAAAA''"

definition drawB :: string where
  "drawB = ''BBBBBBBBBBBBBBBBBBBBBBBBBBBBBBBB''"

definition driftChain :: "block list" where
  "driftChain = chainOf (genesis drawA)
     [1683901000000, 1683901010000, 1683901020000, 1683901030000, 1683901040000,
      1683901050000, 1683901060000, 1683901070000, 1683901080000, 1683901100000]"

definition sampleSave :: "block list \<Rightarrow> block list \<Rightarrow> block list \<times> bool" where
  "sampleSave db c = (c, True)"

text \<open>A storage whose \<open>saveChain\<close> clears what it held and then throws.\<close>

definition failingSave :: "block list \<Rightarrow> block list \<Rightarrow> block list \<times> bool" where
  "failingSave db c = ([], False)"

definition tamperedChain :: "block list" where
  "tamperedChain = [genesis drawA, (mineOn (genesis drawA) 1683900010000)\<lparr>hash := ''invalid-hash''\<rparr>]"

definition shortChain :: "block list" where
  "shortChain = chainOf (genesis drawA) [1683900010000]"

definition sampleTxHash :: "string \<Rightarrow> string \<Rightarrow> rat \<Rightarrow> int \<Rightarrow> string \<Rightarrow> int \<Rightarrow> string" where
  "sampleTxHash s r a t d n = s @ ''>'' @ r @ '':'' @ d"

definition sampleTx :: "string \<Rightarrow> string \<Rightarrow> rat \<Rightarrow> transaction" where
  "sampleTx s r a =
     \<lparr>tx_sender = s, tx_recipient = r, tx_amount = a, tx_timestamp = 1683900000500,
      tx_data = '''', tx_senderPublicKey = s,
      tx_signature = Some \<lparr>signature = sampleTxHash s r a 1683900000500 '''' 0 @ s, randomness = ''00''\<rparr>,
      tx_nonce = 0, tx_hash = sampleTxHash s r a 1683900000500 '''' 0, tx_blockHeight = None\<rparr>"

definition sampleValidator :: "string \<Rightarrow> int \<Rightarrow> int \<Rightarrow> int \<Rightarrow> validator" where
  "sampleValidator a s la rep =
     \<lparr>address = a, stake = s, publicKey = a @ ''-key'', blocksMined = 0, lastActive = la,
      reputation = rep, validatorProof = ''proof-'' @ a @ ''-key''\<rparr>"

definition fiveValidators :: consensusManager where
  "fiveValidators = newConsensusManager
     \<lparr>validators :=
        [(''v0'', sampleValidator ''v0'' 1000000 1683900000000 100),
         (''v1'', sampleValidator ''v1'' 1000000 1683900000000 100),
         (''v2'', sampleValidator ''v2'' 1000000 1683900000000 100),
         (''v3'', sampleValidator ''v3'' 1000000 1683900000000 100),
         (''v4'', sampleValidator ''v4'' 1000000 1683900000000 0)]\<rparr>"


definition sampleProofGen :: "string \<Rightarrow> string" where
  "sampleProofGen pk = ''proof-'' @ pk"

definition signedBlock :: "string \<Rightarrow> block" where
  "signedBlock pk =
     \<lparr>timestamp = 1683900099500, lastHash = ''previous-hash'', hash = ''current-hash'',
      transactions = [], nonce = 0, difficulty = 4,
      quantumProof = Some \<lparr>signature = ''current-hash'' @ pk, randomness = ''00''\<rparr>,
      merkleRoot = None, minerPublicKey = None\<rparr>"

definition emptyShard :: "string \<Rightarrow> shard" where
  "emptyShard i =
     \<lparr>sh_id = i, sh_chain = [], sh_state = [], sh_pendingTransactions = [],
      sh_lastProcessedBlock = None, sh_validatorSet = []\<rparr>"

definition sixteenShards :: shardManager where
  "sixteenShards =
     \<lparr>shards = map (\<lambda>i. (i, emptyShard i))
        [''shard-0'', ''shard-1'', ''shard-2'', ''shard-3'', ''shard-4'', ''shard-5'',
         ''shard-6'', ''shard-7'', ''shard-8'', ''shard-9'', ''shard-a'', ''shard-b'',
         ''shard-c'', ''shard-d'', ''shard-e'', ''shard-f''],
      shardValidators = [], crossShardTransactions = []\<rparr>"

definition sampleAddressHash :: "string \<Rightarrow> nat" where
  "sampleAddressHash addr = length addr"

definition sampleCrossProof :: "string \<Rightarrow> string" where
  "sampleCrossProof d = ''proof:'' @ d"

definition sampleFinalProof :: "string \<Rightarrow> int \<Rightarrow> string" where
  "sampleFinalProof d t = ''final:'' @ d"

definition aliceToBob :: transaction where
  "aliceToBob = sampleTx ''alice'' ''bob'' 5"

definition shardBlock :: "string \<Rightarrow> int \<Rightarrow> transaction list \<Rightarrow> block" where
  "shardBlock h ts txs =
     \<lparr>timestamp = ts, lastHash = '''', hash = h, transactions = txs, nonce = 0, difficulty = 4,
      quantumProof = None, merkleRoot = None, minerPublicKey = None\<rparr>"

definition fourSignatures :: "string \<Rightarrow> (string \<times> quantum_proof) list" where
  "fourSignatures h =
     map (\<lambda>k. (k, \<lparr>signature = h @ k, randomness = ''00''\<rparr>)) [''k1'', ''k2'', ''k3'', ''k4'']"

definition submitted :: shardManager where
  "submitted = snd (processTransaction sampleAddressHash sampleCrossProof 1683900000600
     aliceToBob sixteenShards)"

definition finalizedOnce :: shardManager where
  "finalizedOnce = snd (finalizeBlock sampleKyber sampleFinalProof 1683900005000 ''shard-5''
     (shardBlock ''b1'' 1683900005000 [aliceToBob]) (fourSignatures ''b1'') submitted)"

definition finalizedBySource :: shardManager where
  "finalizedBySource = snd (finalizeBlock sampleKyber sampleFinalProof 1683900010000 ''shard-5''
     (shardBlock ''b2'' 1683900010000 [aliceToBob]) (fourSignatures ''b2'') finalizedOnce)"

definition finalizedByTarget :: shardManager where
  "finalizedByTarget = snd (finalizeBlock sampleKyber sampleFinalProof 1683900010000 ''shard-3''
     (shardBlock ''b3'' 1683900010000 [aliceToBob]) (fourSignatures ''b3'') finalizedOnce)"


chapter \<open>Properties\<close>

section \<open>Chain validation\<close>

lemma validPairsFrom_nth:
  "validPairsFrom H S K i c \<Longrightarrow> i \<le> j \<Longrightarrow> j < length c \<Longrightarrow>
   isValidBlock H S K (c ! j) (Some (c ! (j - 1)))"
proof (induction H S K i c rule: validPairsFrom.induct)
  case (1 H S K i c)
  from "1.prems" have il: "i < length c" by simp
  from "1.prems"(1) il have v: "isValidBlock H S K (c ! i) (Some (c ! (i - 1)))"
    by (subst (asm) validPairsFrom.simps) (simp split: if_splits)
  from "1.prems"(1) il have r: "validPairsFrom H S K (Suc i) c"
    by (subst (asm) validPairsFrom.simps) (simp split: if_splits)
  show ?case
  proof (cases "j = i")
    case True
    with v show ?thesis by simp
  next
    case False
    with "1.prems" have "Suc i \<le> j" by simp
    from "1.IH" [OF il _ r this "1.prems"(3)] v show ?thesis by simp
  qed
qed

lemma driftChain_valid: "isValidChain sampleHash sampleSize sampleKyber drawA driftChain"
  unfolding driftChain_def isValidChain_def
  apply (simp add: mineOn_def sampleHash_def genesis_def toJSON_def)
  apply (simp add: validPairsFrom.simps isValidBlock_def validateBlockStructure_def validateBlockHash_def
     validateBlockChain_def validateQuantumProof_def validateBlockSize_def sampleSize_def MAX_BLOCK_SIZE_def sampleHash_def)
  apply (simp add: validateDifficultyAdjustment_def DIFFICULTY_ADJUSTMENT_INTERVAL_def BLOCK_GENERATION_INTERVAL_def)
  done

lemma shortChain_valid: "isValidChain sampleHash sampleSize sampleKyber drawA shortChain"
  unfolding shortChain_def isValidChain_def
  apply (simp add: mineOn_def sampleHash_def genesis_def toJSON_def)
  apply (simp add: validPairsFrom.simps isValidBlock_def validateBlockStructure_def validateBlockHash_def
     validateBlockChain_def validateQuantumProof_def validateBlockSize_def sampleSize_def MAX_BLOCK_SIZE_def sampleHash_def)
  apply (simp add: validateDifficultyAdjustment_def DIFFICULTY_ADJUSTMENT_INTERVAL_def BLOCK_GENERATION_INTERVAL_def)
  done

lemma tamperedChain_invalid: "\<not> isValidChain sampleHash sampleSize sampleKyber drawA tamperedChain"
  unfolding tamperedChain_def isValidChain_def
  apply (simp add: mineOn_def sampleHash_def genesis_def toJSON_def)
  apply (simp add: validPairsFrom.simps isValidBlock_def validateBlockStructure_def validateBlockHash_def
     validateBlockChain_def validateQuantumProof_def validateBlockSize_def sampleSize_def MAX_BLOCK_SIZE_def sampleHash_def)
  done

text \<open>
  C1 as stated (a chain that \<open>isValidChain\<close> accepts keeps every window of
  \<open>DIFFICULTY_ADJUSTMENT_INTERVAL\<close> blocks within 25% of the target time) fails:
  \<open>validateDifficultyAdjustment\<close> looks at the last window only. The chain of eleven
  blocks below is accepted, and its first window of ten blocks spans 1080000 ms.
\<close>

theorem isValidChain_drift_counterexample:
  "isValidChain sampleHash sampleSize sampleKyber drawA driftChain
   \<and> 0 + DIFFICULTY_ADJUSTMENT_INTERVAL \<le> length driftChain
   \<and> \<not> \<bar>timestamp (driftChain ! (0 + DIFFICULTY_ADJUSTMENT_INTERVAL - 1)) - timestamp (driftChain ! 0)
          - BLOCK_GENERATION_INTERVAL * int DIFFICULTY_ADJUSTMENT_INTERVAL\<bar>
        \<le> BLOCK_GENERATION_INTERVAL * int DIFFICULTY_ADJUSTMENT_INTERVAL div 4"
  using driftChain_valid
  by (simp add: driftChain_def mineOn_def genesis_def DIFFICULTY_ADJUSTMENT_INTERVAL_def
      BLOCK_GENERATION_INTERVAL_def)

text \<open>
  C1, amended: \<open>isValidChain\<close> returns true only if the chain is not empty, its first
  element serialises to the same JSON as the genesis block built in that call, every
  adjacent pair satisfies \<open>isValidBlock\<close>, and, when the chain has at least
  \<open>DIFFICULTY_ADJUSTMENT_INTERVAL\<close> blocks, the time between the last block and the
  block \<open>DIFFICULTY_ADJUSTMENT_INTERVAL\<close> positions from the end differs from the target
  (10 blocks of 10 seconds) by at most a quarter of the target.
\<close>

theorem isValidChain_only_if:
  assumes "isValidChain H S K rnd c"
  shows "c \<noteq> [] \<and> toJSON (c ! 0) = toJSON (genesis rnd)
    \<and> (\<forall>i. 1 \<le> i \<and> i < length c \<longrightarrow> isValidBlock H S K (c ! i) (Some (c ! (i - 1))))
    \<and> (DIFFICULTY_ADJUSTMENT_INTERVAL \<le> length c \<longrightarrow>
         \<bar>timestamp (c ! (length c - 1)) - timestamp (c ! (length c - DIFFICULTY_ADJUSTMENT_INTERVAL))
            - BLOCK_GENERATION_INTERVAL * int DIFFICULTY_ADJUSTMENT_INTERVAL\<bar>
         \<le> BLOCK_GENERATION_INTERVAL * int DIFFICULTY_ADJUSTMENT_INTERVAL div 4)"
proof -
  from assms obtain first rest where c: "c = first # rest"
    by (cases c) (simp_all add: isValidChain_def)
  from assms c have g: "toJSON first = toJSON (genesis rnd)"
    and p: "validPairsFrom H S K 1 c" and d: "validateDifficultyAdjustment c"
    by (simp_all add: isValidChain_def split: if_splits)
  from p have "\<forall>i. 1 \<le> i \<and> i < length c \<longrightarrow> isValidBlock H S K (c ! i) (Some (c ! (i - 1)))"
    by (blast intro: validPairsFrom_nth)
  moreover from d have "DIFFICULTY_ADJUSTMENT_INTERVAL \<le> length c \<longrightarrow>
         \<bar>timestamp (c ! (length c - 1)) - timestamp (c ! (length c - DIFFICULTY_ADJUSTMENT_INTERVAL))
            - BLOCK_GENERATION_INTERVAL * int DIFFICULTY_ADJUSTMENT_INTERVAL\<bar>
         \<le> BLOCK_GENERATION_INTERVAL * int DIFFICULTY_ADJUSTMENT_INTERVAL div 4"
    by (simp add: validateDifficultyAdjustment_def Let_def split: if_splits)
  ultimately show ?thesis using c g by simp
qed

theorem isValidChain_only_if_witness:
  "isValidChain sampleHash sampleSize sampleKyber drawA driftChain
   \<and> driftChain \<noteq> [] \<and> toJSON (driftChain ! 0) = toJSON (genesis drawA)
   \<and> isValidBlock sampleHash sampleSize sampleKyber (driftChain ! 1) (Some (driftChain ! 0))
   \<and> isValidBlock sampleHash sampleSize sampleKyber (driftChain ! 10) (Some (driftChain ! 9))
   \<and> length driftChain = 11
   \<and> \<bar>timestamp (driftChain ! 10) - timestamp (driftChain ! 1) - 100000\<bar> \<le> 25000"
proof -
  have len: "length driftChain = 11" by (simp add: driftChain_def)
  note w = isValidChain_only_if [OF driftChain_valid]
  from w have pairs: "\<forall>i. 1 \<le> i \<and> i < length driftChain \<longrightarrow>
      isValidBlock sampleHash sampleSize sampleKyber (driftChain ! i) (Some (driftChain ! (i - 1)))"
    by blast
  from pairs [rule_format, of 1] len
  have b1: "isValidBlock sampleHash sampleSize sampleKyber (driftChain ! 1) (Some (driftChain ! 0))"
    by simp
  from pairs [rule_format, of 10] len
  have b10: "isValidBlock sampleHash sampleSize sampleKyber (driftChain ! 10) (Some (driftChain ! 9))"
    by simp
  from w len driftChain_valid b1 b10 show ?thesis
    by (simp add: DIFFICULTY_ADJUSTMENT_INTERVAL_def BLOCK_GENERATION_INTERVAL_def)
qed

section \<open>Chain replacement\<close>

text \<open>
  C2: \<open>replaceChain\<close> fails with \<open>ChainNotLonger\<close> whenever the new chain is not longer
  than the current one, with \<open>ChainInvalid\<close> whenever it is longer and \<open>isValidChain\<close>
  rejects it, and whenever it does not return true the current chain is the one before the
  call; the chain changes only for a longer chain that \<open>isValidChain\<close> accepts.
\<close>

theorem replaceChain_failures:
  "(length newChain \<le> length (bc_chain bc) \<longrightarrow>
      replaceChain H S K rnd save newChain bc = (Inl ChainNotLonger, bc))
   \<and> (length (bc_chain bc) < length newChain \<and> \<not> isValidChain H S K rnd newChain \<longrightarrow>
      replaceChain H S K rnd save newChain bc = (Inl ChainInvalid, bc))
   \<and> (fst (replaceChain H S K rnd save newChain bc) \<noteq> Inr True \<longrightarrow>
      bc_chain (snd (replaceChain H S K rnd save newChain bc)) = bc_chain bc)
   \<and> (bc_chain (snd (replaceChain H S K rnd save newChain bc)) \<noteq> bc_chain bc \<longrightarrow>
      length (bc_chain bc) < length newChain \<and> isValidChain H S K rnd newChain)"
  by (auto simp add: replaceChain_def split: prod.splits bool.splits)

theorem replaceChain_failures_witness:
  "replaceChain sampleHash sampleSize sampleKyber drawA sampleSave [genesis drawA]
      \<lparr>bc_chain = [genesis drawA], bc_db = []\<rparr>
    = (Inl ChainNotLonger, \<lparr>bc_chain = [genesis drawA], bc_db = []\<rparr>)
   \<and> replaceChain sampleHash sampleSize sampleKyber drawA sampleSave tamperedChain
      \<lparr>bc_chain = [genesis drawA], bc_db = []\<rparr>
    = (Inl ChainInvalid, \<lparr>bc_chain = [genesis drawA], bc_db = []\<rparr>)
   \<and> bc_chain (snd (replaceChain sampleHash sampleSize sampleKyber drawA sampleSave tamperedChain
      \<lparr>bc_chain = [genesis drawA], bc_db = []\<rparr>)) = [genesis drawA]
   \<and> bc_chain (snd (replaceChain sampleHash sampleSize sampleKyber drawA sampleSave shortChain
      \<lparr>bc_chain = [genesis drawA], bc_db = []\<rparr>)) = shortChain
   \<and> shortChain \<noteq> [genesis drawA]
   \<and> isValidChain sampleHash sampleSize sampleKyber drawA shortChain
   \<and> replaceChain sampleHash sampleSize sampleKyber drawA failingSave shortChain
      \<lparr>bc_chain = [genesis drawA], bc_db = [genesis drawA]\<rparr>
    = (Inr False, \<lparr>bc_chain = [genesis drawA], bc_db = []\<rparr>)"
  using replaceChain_failures [of "[genesis drawA]" "\<lparr>bc_chain = [genesis drawA], bc_db = []\<rparr>"
      sampleHash sampleSize sampleKyber drawA sampleSave]
    replaceChain_failures [of tamperedChain "\<lparr>bc_chain = [genesis drawA], bc_db = []\<rparr>"
      sampleHash sampleSize sampleKyber drawA sampleSave]
    replaceChain_failures [of shortChain "\<lparr>bc_chain = [genesis drawA], bc_db = []\<rparr>"
      sampleHash sampleSize sampleKyber drawA sampleSave]
    replaceChain_failures [of shortChain "\<lparr>bc_chain = [genesis drawA], bc_db = [genesis drawA]\<rparr>"
      sampleHash sampleSize sampleKyber drawA failingSave]
    tamperedChain_invalid shortChain_valid
  by (simp add: tamperedChain_def shortChain_def replaceChain_def sampleSave_def failingSave_def)

section \<open>The genesis block\<close>

text \<open>
  C9 (the genesis block is the same value in every run): \<open>lastHash\<close> and the empty
  transaction list are fixed, but the \<open>randomness\<close> of the proof is drawn afresh by
  \<open>generateDeterministicProof\<close>, so two calls of \<open>Block.genesis()\<close> with different draws
  give different blocks, and \<open>isValidChain\<close> rejects a chain that starts with the genesis
  block of an earlier call.
\<close>

theorem genesis_depends_on_random_bytes:
  "genesis drawA \<noteq> genesis drawB
   \<and> toJSON (genesis drawA) \<noteq> toJSON (genesis drawB)
   \<and> \<not> isValidChain H S K drawB [genesis drawA]
   \<and> lastHash (genesis rnd) = ''-----'' \<and> transactions (genesis rnd) = []"
  by (simp add: isValidChain_def toJSON_def genesis_def generateInitialQuantumProof_def
       generateDeterministicProof_def drawA_def drawB_def toHex_def hexDigit_def)

section \<open>Difficulty adjustment\<close>

text \<open>
  C4 as stated (the result is one of the three cases and never differs from the previous
  difficulty by more than 1, for every previous block) fails for a previous block whose
  difficulty is below the minimum: the guard at the head of \<open>adjustDifficulty\<close> returns
  the minimum itself, here 4 for a previous difficulty of 2.
\<close>

theorem adjustDifficulty_jump_counterexample:
  "adjustDifficulty
     \<lparr>timestamp = 1683900000000, lastHash = ''-----'', hash = ''genesis-hash'',
      transactions = [], nonce = 0, difficulty = 2, quantumProof = None,
      merkleRoot = None, minerPublicKey = None\<rparr> 1683900010000 = 4
   \<and> \<not> \<bar>adjustDifficulty
     \<lparr>timestamp = 1683900000000, lastHash = ''-----'', hash = ''genesis-hash'',
      transactions = [], nonce = 0, difficulty = 2, quantumProof = None,
      merkleRoot = None, minerPublicKey = None\<rparr> 1683900010000 - 2\<bar> \<le> 1"
  by (simp add: adjustDifficulty_def MIN_DIFFICULTY_def MAX_DIFFICULTY_def
      BLOCK_GENERATION_INTERVAL_def)

text \<open>
  C4, amended: for a previous block whose difficulty lies in
  \<open>[MIN_DIFFICULTY, MAX_DIFFICULTY]\<close>, \<open>adjustDifficulty\<close> returns the difficulty minus 1
  (floored at the minimum) when the elapsed time exceeds twice the target interval, plus 1
  (capped at the maximum) when it is under half the interval, and the difficulty itself
  otherwise, so the result stays in the range and differs from the previous difficulty by
  at most 1. For a previous difficulty outside the range the result is the bound that was
  crossed, whatever the elapsed time.
\<close>

theorem adjustDifficulty_cases:
  "(MIN_DIFFICULTY \<le> difficulty p \<and> difficulty p \<le> MAX_DIFFICULTY \<longrightarrow>
      adjustDifficulty p ts =
        (if ts - timestamp p > 2 * BLOCK_GENERATION_INTERVAL
           then max (difficulty p - 1) MIN_DIFFICULTY
         else if ts - timestamp p < BLOCK_GENERATION_INTERVAL div 2
           then min (difficulty p + 1) MAX_DIFFICULTY
         else difficulty p)
      \<and> \<bar>adjustDifficulty p ts - difficulty p\<bar> \<le> 1
      \<and> MIN_DIFFICULTY \<le> adjustDifficulty p ts \<and> adjustDifficulty p ts \<le> MAX_DIFFICULTY)
   \<and> (difficulty p < MIN_DIFFICULTY \<longrightarrow> adjustDifficulty p ts = MIN_DIFFICULTY)
   \<and> (difficulty p > MAX_DIFFICULTY \<longrightarrow> adjustDifficulty p ts = MAX_DIFFICULTY)"
  by (auto simp add: adjustDifficulty_def MIN_DIFFICULTY_def MAX_DIFFICULTY_def
      BLOCK_GENERATION_INTERVAL_def)

theorem adjustDifficulty_cases_witness:
  "adjustDifficulty (genesis []\<lparr>difficulty := 5\<rparr>) 1683900030000 = 4
   \<and> adjustDifficulty (genesis []\<lparr>difficulty := 5\<rparr>) 1683900001000 = 6
   \<and> adjustDifficulty (genesis []\<lparr>difficulty := 5\<rparr>) 1683900010000 = 5
   \<and> adjustDifficulty (genesis []) 1683900030000 = 4
   \<and> adjustDifficulty (genesis []\<lparr>difficulty := 24\<rparr>) 1683900001000 = 24
   \<and> adjustDifficulty (genesis []\<lparr>difficulty := 2\<rparr>) 1683900030000 = 4
   \<and> adjustDifficulty (genesis []\<lparr>difficulty := 30\<rparr>) 1683900030000 = 24"
  using adjustDifficulty_cases [of "genesis []\<lparr>difficulty := 5\<rparr>" 1683900030000]
    adjustDifficulty_cases [of "genesis []\<lparr>difficulty := 5\<rparr>" 1683900001000]
    adjustDifficulty_cases [of "genesis []\<lparr>difficulty := 5\<rparr>" 1683900010000]
    adjustDifficulty_cases [of "genesis []" 1683900030000]
    adjustDifficulty_cases [of "genesis []\<lparr>difficulty := 24\<rparr>" 1683900001000]
    adjustDifficulty_cases [of "genesis []\<lparr>difficulty := 2\<rparr>" 1683900030000]
    adjustDifficulty_cases [of "genesis []\<lparr>difficulty := 30\<rparr>" 1683900030000]
  by (simp add: genesis_def MIN_DIFFICULTY_def MAX_DIFFICULTY_def BLOCK_GENERATION_INTERVAL_def)

section \<open>Lookup by height\<close>

text \<open>
  C10: \<open>getBlockByHeight\<close> is total (it has no failing branch): it returns \<open>null\<close> for
  every height below 0 or at least the length of the chain, and the block at index
  \<open>height\<close> of the current chain otherwise.
\<close>

theorem getBlockByHeight_total:
  "(height < 0 \<or> int (length (bc_chain bc)) \<le> height \<longrightarrow> getBlockByHeight height bc = None)
   \<and> (0 \<le> height \<and> height < int (length (bc_chain bc)) \<longrightarrow>
        getBlockByHeight height bc = Some (bc_chain bc ! nat height))"
  by (simp add: getBlockByHeight_def)

theorem getBlockByHeight_total_witness:
  "getBlockByHeight (- 1) \<lparr>bc_chain = [genesis []], bc_db = ()\<rparr> = None
   \<and> getBlockByHeight 1 \<lparr>bc_chain = [genesis []], bc_db = ()\<rparr> = None
   \<and> getBlockByHeight 0 \<lparr>bc_chain = [genesis []], bc_db = ()\<rparr> = Some (genesis [])"
  using getBlockByHeight_total [of "- 1" "\<lparr>bc_chain = [genesis []], bc_db = ()\<rparr>"]
    getBlockByHeight_total [of 1 "\<lparr>bc_chain = [genesis []], bc_db = ()\<rparr>"]
    getBlockByHeight_total [of 0 "\<lparr>bc_chain = [genesis []], bc_db = ()\<rparr>"]
  by simp

section \<open>Transaction validity\<close>

text \<open>
  C6: \<open>isValid\<close> returns false, without calling the signature verification, whenever the
  amount is not positive or the sender is the recipient; a transaction of the coinbase
  sender is valid only if its amount is the block reward of its height (and no signature
  is verified for it); any other transaction is valid only if it carries a signature that
  verifies over its hash against \<open>senderPublicKey\<close>. For the last case "valid" is what the
  returned promise resolves to.
\<close>

theorem isValid_checks:
  "(tx_amount tx \<le> 0 \<longrightarrow> isValid T K tx = (Boolean False, 0))
   \<and> (tx_sender tx = tx_recipient tx \<longrightarrow> isValid T K tx = (Boolean False, 0))
   \<and> (tx_sender tx = COINBASE_SENDER \<and> resolved (fst (isValid T K tx)) \<longrightarrow>
        snd (isValid T K tx) = 0 \<and>
        (\<exists>h. tx_blockHeight tx = Some h \<and> tx_amount tx = calculateBlockReward h))
   \<and> (tx_sender tx \<noteq> COINBASE_SENDER \<and> resolved (fst (isValid T K tx)) \<longrightarrow>
        (\<exists>p. tx_signature tx = Some p \<and> K (tx_hash tx) p (tx_senderPublicKey tx)))"
  by (auto simp add: isValid_def verify_def verifySignature_def split: option.splits if_splits)

theorem isValid_checks_witness:
  "isValid sampleTxHash sampleKyber (sampleTx ''alice'' ''bob'' 0) = (Boolean False, 0)
   \<and> isValid sampleTxHash sampleKyber (sampleTx ''alice'' ''alice'' 5) = (Boolean False, 0)
   \<and> isValid sampleTxHash sampleKyber
        ((sampleTx COINBASE_SENDER ''bob'' 25)\<lparr>tx_blockHeight := Some 210000\<rparr>) = (Boolean True, 0)
   \<and> calculateBlockReward 210000 = 25
   \<and> isValid sampleTxHash sampleKyber (sampleTx ''alice'' ''bob'' 5) = (PromiseOf True, 1)
   \<and> sampleKyber (tx_hash (sampleTx ''alice'' ''bob'' 5))
        \<lparr>signature = ''alice>bob:alice'', randomness = ''00''\<rparr> ''alice''"
  using isValid_checks [of "sampleTx ''alice'' ''bob'' 0" sampleTxHash sampleKyber]
    isValid_checks [of "sampleTx ''alice'' ''alice'' 5" sampleTxHash sampleKyber]
    isValid_checks [of "(sampleTx COINBASE_SENDER ''bob'' 25)\<lparr>tx_blockHeight := Some 210000\<rparr>"
      sampleTxHash sampleKyber]
    isValid_checks [of "sampleTx ''alice'' ''bob'' 5" sampleTxHash sampleKyber]
  by (simp add: isValid_def verify_def verifySignature_def sampleTx_def sampleTxHash_def
      sampleKyber_def calculateHash_def calculateBlockReward_def COINBASE_SENDER_def)

section \<open>Double-precision arithmetic\<close>










section \<open>Validator selection\<close>





section \<open>Reputation\<close>

lemma set_update_subset: "set (AList.update k v al) \<subseteq> insert (k, v) (set al)"
  by (induction al) auto

lemma list_all_update:
  "list_all P al \<Longrightarrow> P (k, v) \<Longrightarrow> list_all P (AList.update k v al)"
  using set_update_subset [of k v al] by (auto simp add: list_all_iff)

lemma assessBlockQuality_bounds:
  "0 \<le> assessBlockQuality S now b \<and> assessBlockQuality S now b \<le> 15"
  by (simp add: assessBlockQuality_def)

lemma updateValidatorStats_range:
  "reputationsInRange cm \<Longrightarrow> reputationsInRange (updateValidatorStats S now addr b cm)"
  by (auto simp add: reputationsInRange_def updateValidatorStats_def Let_def
      intro!: list_all_update split: option.splits)

lemma registerValidator_range:
  "reputationsInRange cm \<Longrightarrow> registerValidator G now addr stk pk cm = Inr (v, cm') \<Longrightarrow>
   reputationsInRange cm'"
  by (auto simp add: reputationsInRange_def registerValidator_def Let_def
      intro!: list_all_update split: if_splits)

lemma creditLoop_eq:
  "creditLoop C rs cm =
     (list_all (\<lambda>(a, n). C a n) rs,
      cm\<lparr>rewardCredits := rewardCredits cm @ takeWhile (\<lambda>(a, n). C a n) rs\<rparr>)"
  by (induction rs arbitrary: cm) auto

lemma distributeRewards_validators:
  "validators (snd (distributeRewards C epoch cm)) = validators cm"
  by (simp add: distributeRewards_def creditLoop_eq Let_def split: bool.splits)

lemma applyOp_range:
  "reputationsInRange cm \<Longrightarrow> reputationsInRange (applyOp G K S C cm op)"
proof (cases op)
  case (RegisterValidator now addr stk pk)
  assume "reputationsInRange cm"
  then show ?thesis using RegisterValidator
    by (auto split: sum.splits dest: registerValidator_range)
next
  case (ValidateBlock now b v)
  assume "reputationsInRange cm"
  then show ?thesis using ValidateBlock
    by (simp add: validateBlock_def updateValidatorStats_range)
next
  case (UpdateValidatorStats now addr b)
  assume "reputationsInRange cm"
  then show ?thesis using UpdateValidatorStats by (simp add: updateValidatorStats_range)
next
  case (DistributeRewards epoch)
  assume "reputationsInRange cm"
  then show ?thesis using DistributeRewards
    by (simp add: distributeRewards_validators reputationsInRange_def)
qed

lemma fold_applyOp_range:
  "reputationsInRange cm \<Longrightarrow>
   reputationsInRange (fold (\<lambda>op cm. applyOp G K S C cm op) ops cm)"
  by (induction ops arbitrary: cm) (simp_all add: applyOp_range)

text \<open>
  C8: after any run of the manager's writing operations from a new manager, every
  validator of the registry has a reputation in \<open>[0,100]\<close>; registration stores a validator
  of reputation 100; the quality delta of a statistics update is between 0 and 15, and the
  reputation it stores is clamped to \<open>[0,100]\<close> whatever it was before.
\<close>

theorem reputation_in_range:
  "reputationsInRange (fold (\<lambda>op cm. applyOp G K S C cm op) ops newConsensusManager)
   \<and> (\<forall>v cm'. registerValidator G now addr stk pk cm = Inr (v, cm') \<longrightarrow>
        reputation v = 100 \<and> map_of (validators cm') addr = Some v)
   \<and> 0 \<le> assessBlockQuality S now b \<and> assessBlockQuality S now b \<le> 15
   \<and> (\<forall>v'. map_of (validators (updateValidatorStats S now addr b cm)) addr = Some v' \<longrightarrow>
        0 \<le> reputation v' \<and> reputation v' \<le> 100)"
proof -
  have "reputationsInRange newConsensusManager"
    by (simp add: reputationsInRange_def newConsensusManager_def)
  then have a: "reputationsInRange (fold (\<lambda>op cm. applyOp G K S C cm op) ops newConsensusManager)"
    by (rule fold_applyOp_range)
  have b: "\<forall>v cm'. registerValidator G now addr stk pk cm = Inr (v, cm') \<longrightarrow>
        reputation v = 100 \<and> map_of (validators cm') addr = Some v"
    by (auto simp add: registerValidator_def Let_def AList.update_conv' split: if_splits)
  have c: "\<forall>v'. map_of (validators (updateValidatorStats S now addr b cm)) addr = Some v' \<longrightarrow>
        0 \<le> reputation v' \<and> reputation v' \<le> 100"
    by (auto simp add: updateValidatorStats_def Let_def AList.update_conv' split: option.splits)
  from a b c assessBlockQuality_bounds [of S now b] show ?thesis by blast
qed

theorem reputation_in_range_witness:
  "reputationsInRange
     (fold (\<lambda>op cm. applyOp sampleProofGen sampleKyber sampleSize (\<lambda>a n. True) cm op)
        [RegisterValidator 1683900000000 ''v0'' 1000000 ''v0-key'',
         ValidateBlock 1683900100000 (signedBlock ''v0-key'')
           (sampleValidator ''v0'' 1000000 1683900000000 100)]
        newConsensusManager)
   \<and> map_of (validators
        (fold (\<lambda>op cm. applyOp sampleProofGen sampleKyber sampleSize (\<lambda>a n. True) cm op)
        [RegisterValidator 1683900000000 ''v0'' 1000000 ''v0-key'',
         ValidateBlock 1683900100000 (signedBlock ''v0-key'')
           (sampleValidator ''v0'' 1000000 1683900000000 100)]
        newConsensusManager)) ''v0''
      = Some ((sampleValidator ''v0'' 1000000 1683900100000 100)\<lparr>blocksMined := 1\<rparr>)
   \<and> registerValidator sampleProofGen 1683900000000 ''v0'' 1000000 ''v0-key'' newConsensusManager
      = Inr (sampleValidator ''v0'' 1000000 1683900000000 100,
             newConsensusManager\<lparr>validators :=
               [(''v0'', sampleValidator ''v0'' 1000000 1683900000000 100)]\<rparr>)
   \<and> assessBlockQuality sampleSize 1683900100000 (signedBlock ''v0-key'') = 15
   \<and> map_of (validators (updateValidatorStats sampleSize 1683900100000 ''v4''
        (signedBlock ''v4-key'') fiveValidators)) ''v4''
      = Some ((sampleValidator ''v4'' 1000000 1683900100000 15)\<lparr>blocksMined := 1\<rparr>)"
  using reputation_in_range [of sampleProofGen sampleKyber sampleSize "\<lambda>a n. True"
      "[RegisterValidator 1683900000000 ''v0'' 1000000 ''v0-key'',
        ValidateBlock 1683900100000 (signedBlock ''v0-key'')
          (sampleValidator ''v0'' 1000000 1683900000000 100)]"
      1683900000000 "''v0''" 1000000 "''v0-key''" newConsensusManager]
    reputation_in_range [of sampleProofGen sampleKyber sampleSize "\<lambda>a n. True" "[]"
      1683900100000 "''v4''" 1000000 "''v4-key''" fiveValidators "signedBlock ''v4-key''"]
  by (simp add: registerValidator_def validateBlock_def updateValidatorStats_def
      assessBlockQuality_def newConsensusManager_def fiveValidators_def sampleValidator_def
      sampleProofGen_def signedBlock_def sampleKyber_def sampleSize_def minStake_def
      validatorStake_def verifyBlockProof_def verifySignature_def isValidatorActive_def
      maxBlockSize_def maxTransactionsPerBlock_def reputationsInRange_def Let_def)

section \<open>Rewards\<close>













section \<open>Cross-shard transactions\<close>

lemma pendingIn_modifyShard:
  assumes "modifyShard sid f sm = Some sm'"
  shows "pendingIn sm' S h =
     (if sid = Some S then (\<exists>sh. map_of (shards sm) S = Some sh \<and>
          map_of (sh_pendingTransactions (f sh)) h \<noteq> None)
      else pendingIn sm S h)"
  using assms
  by (auto simp add: modifyShard_def pendingIn_def AList.update_conv'
      split: option.splits if_splits)

lemma crossShard_modifyShard:
  "modifyShard sid f sm = Some sm' \<Longrightarrow> crossShardTransactions sm' = crossShardTransactions sm"
  by (auto simp add: modifyShard_def split: option.splits)

lemma pendingIn_delete:
  assumes "modifyShard sid
     (\<lambda>sh. sh\<lparr>sh_pendingTransactions := AList.delete k (sh_pendingTransactions sh)\<rparr>) sm = Some sm'"
  shows "pendingIn sm' S h = (pendingIn sm S h \<and> \<not> (sid = Some S \<and> h = k))"
  unfolding pendingIn_modifyShard [OF assms]
  using assms
  by (auto simp add: pendingIn_def AList.delete_conv' modifyShard_def split: option.splits)

lemma finalizeCross_status:
  assumes "finalizeCrossShardTransaction F now k sm = (None, sm')"
    and "map_of (crossShardTransactions sm) k = Some c"
  shows "statusOf sm' h = (if k = h then Some Completed else statusOf sm h)"
  using assms
  by (auto simp add: finalizeCrossShardTransaction_def statusOf_def Let_def AList.update_conv'
      dest!: crossShard_modifyShard split: option.splits)

lemma crossStep_status:
  assumes "crossStep F now tx sm = (None, sm')"
  shows "statusOf sm' h =
     (if tx_hash tx = h then map_option advance (statusOf sm h) else statusOf sm h)"
proof (cases "map_of (crossShardTransactions sm) (tx_hash tx)")
  case None
  with assms show ?thesis by (auto simp add: crossStep_def statusOf_def)
next
  case (Some c)
  show ?thesis
  proof (cases "cs_status c")
    case Pending
    with assms Some show ?thesis
      by (auto simp add: crossStep_def statusOf_def updateCrossShardTransaction_def
          AList.update_conv')
  next
    case Processing
    with assms Some have "finalizeCrossShardTransaction F now (tx_hash tx) sm = (None, sm')"
      by (simp add: crossStep_def)
    from finalizeCross_status [OF this Some, of h] Some Processing show ?thesis
      by (auto simp add: statusOf_def)
  next
    case Completed
    with assms Some show ?thesis by (auto simp add: crossStep_def statusOf_def)
  qed
qed

lemma finalizeCross_pending:
  assumes "finalizeCrossShardTransaction F now k sm = (None, sm')"
    and "map_of (crossShardTransactions sm) k = Some c"
  shows "pendingIn sm' S h =
     (pendingIn sm S h \<and> \<not> (h = k \<and> (cs_sourceShard c = Some S \<or> cs_targetShard c = Some S)))"
proof -
  let ?del = "\<lambda>sh. sh\<lparr>sh_pendingTransactions := AList.delete k (sh_pendingTransactions sh)\<rparr>"
  from assms obtain sm1 sm2 where
    m1: "modifyShard (cs_sourceShard c) ?del sm = Some sm1" and
    m2: "modifyShard (cs_targetShard c) ?del sm1 = Some sm2" and
    s: "shards sm' = shards sm2"
    by (auto simp add: finalizeCrossShardTransaction_def Let_def split: option.splits)
  from s have "pendingIn sm' S h = pendingIn sm2 S h" by (simp add: pendingIn_def)
  with pendingIn_delete [OF m1, of S h] pendingIn_delete [OF m2, of S h] show ?thesis by auto
qed

lemma crossStep_pending:
  assumes "crossStep F now tx sm = (None, sm')"
  shows "pendingIn sm' S h =
     (pendingIn sm S h \<and>
      \<not> (h = tx_hash tx \<and>
         (\<exists>c. map_of (crossShardTransactions sm) h = Some c \<and> cs_status c = Processing \<and>
              (cs_sourceShard c = Some S \<or> cs_targetShard c = Some S))))"
proof (cases "map_of (crossShardTransactions sm) (tx_hash tx)")
  case None
  with assms show ?thesis by (auto simp add: crossStep_def)
next
  case (Some c)
  show ?thesis
  proof (cases "cs_status c")
    case Pending
    with assms Some show ?thesis
      by (auto simp add: crossStep_def updateCrossShardTransaction_def pendingIn_def)
  next
    case Processing
    with assms Some have "finalizeCrossShardTransaction F now (tx_hash tx) sm = (None, sm')"
      by (simp add: crossStep_def)
    from finalizeCross_pending [OF this Some, of S h] Some Processing show ?thesis by auto
  next
    case Completed
    with assms Some show ?thesis by (auto simp add: crossStep_def)
  qed
qed

lemma crossStep_entry:
  assumes "crossStep F now tx sm = (None, sm')" and "tx_hash tx \<noteq> h"
  shows "map_of (crossShardTransactions sm') h = map_of (crossShardTransactions sm) h"
  using assms
  by (auto simp add: crossStep_def updateCrossShardTransaction_def
      finalizeCrossShardTransaction_def Let_def AList.update_conv'
      dest!: crossShard_modifyShard split: option.splits if_splits)

lemma advance_funpow_Completed: "(advance ^^ n) Completed = Completed"
  by (induction n) simp_all

lemma processCross_status:
  "processCrossShardTransactions F now txs sm = (None, sm') \<Longrightarrow>
   statusOf sm' h = map_option (advance ^^ count_list (map tx_hash txs) h) (statusOf sm h)"
proof (induction txs arbitrary: sm)
  case Nil
  then show ?case by (simp add: option.map_ident)
next
  case (Cons tx txs)
  from Cons.prems obtain sm1 where
    s: "crossStep F now tx sm = (None, sm1)" and
    r: "processCrossShardTransactions F now txs sm1 = (None, sm')"
    by (auto split: prod.splits option.splits)
  from Cons.IH [OF r] crossStep_status [OF s, of h] show ?case
    by (cases "statusOf sm h") (auto simp add: funpow_swap1)
qed

lemma processCross_pending_mono:
  "processCrossShardTransactions F now txs sm = (None, sm') \<Longrightarrow>
   pendingIn sm' S h \<Longrightarrow> pendingIn sm S h"
proof (induction txs arbitrary: sm)
  case Nil
  then show ?case by simp
next
  case (Cons tx txs)
  from Cons.prems(1) obtain sm1 where
    s: "crossStep F now tx sm = (None, sm1)" and
    r: "processCrossShardTransactions F now txs sm1 = (None, sm')"
    by (auto split: prod.splits option.splits)
  from Cons.IH [OF r Cons.prems(2)] crossStep_pending [OF s, of S h] show ?case by simp
qed

lemma processCross_pending_kept:
  "processCrossShardTransactions F now txs sm = (None, sm') \<Longrightarrow>
   statusOf sm' h \<noteq> Some Completed \<Longrightarrow> pendingIn sm' S h = pendingIn sm S h"
proof (induction txs arbitrary: sm)
  case Nil
  then show ?case by simp
next
  case (Cons tx txs)
  from Cons.prems(1) obtain sm1 where
    s: "crossStep F now tx sm = (None, sm1)" and
    r: "processCrossShardTransactions F now txs sm1 = (None, sm')"
    by (auto split: prod.splits option.splits)
  have n1: "statusOf sm1 h \<noteq> Some Completed"
  proof
    assume "statusOf sm1 h = Some Completed"
    with processCross_status [OF r, of h] have "statusOf sm' h = Some Completed"
      by (simp add: advance_funpow_Completed)
    with Cons.prems(2) show False by simp
  qed
  have "pendingIn sm1 S h = pendingIn sm S h"
  proof (rule ccontr)
    assume "pendingIn sm1 S h \<noteq> pendingIn sm S h"
    with crossStep_pending [OF s, of S h] obtain c where
      "h = tx_hash tx" "map_of (crossShardTransactions sm) h = Some c" "cs_status c = Processing"
      by auto
    with crossStep_status [OF s, of h] have "statusOf sm1 h = Some Completed"
      by (simp add: statusOf_def)
    with n1 show False by simp
  qed
  with Cons.IH [OF r Cons.prems(2)] show ?case by simp
qed

lemma processCross_completed_removed:
  "processCrossShardTransactions F now txs sm = (None, sm') \<Longrightarrow>
   map_of (crossShardTransactions sm) h = Some c \<Longrightarrow> cs_status c = Processing \<Longrightarrow>
   h \<in> set (map tx_hash txs) \<Longrightarrow> cs_sourceShard c = Some S \<or> cs_targetShard c = Some S \<Longrightarrow>
   \<not> pendingIn sm' S h"
proof (induction txs arbitrary: sm)
  case Nil
  then show ?case by simp
next
  case (Cons tx txs)
  from Cons.prems(1) obtain sm1 where
    s: "crossStep F now tx sm = (None, sm1)" and
    r: "processCrossShardTransactions F now txs sm1 = (None, sm')"
    by (auto split: prod.splits option.splits)
  show ?case
  proof (cases "tx_hash tx = h")
    case True
    with crossStep_pending [OF s, of S h] Cons.prems have "\<not> pendingIn sm1 S h" by auto
    with processCross_pending_mono [OF r, of S h] show ?thesis by blast
  next
    case False
    from crossStep_entry [OF s False] Cons.prems(2)
    have e: "map_of (crossShardTransactions sm1) h = Some c" by simp
    from False Cons.prems(4) have "h \<in> set (map tx_hash txs)" by auto
    from Cons.IH [OF r e Cons.prems(3) this Cons.prems(5)] show ?thesis .
  qed
qed

lemma fold_delete_lookup:
  "map_of (fold (\<lambda>tx p. AList.delete (tx_hash tx) p) txs p) h =
     (if h \<in> set (map tx_hash txs) then None else map_of p h)"
  by (induction txs arbitrary: p) (auto simp add: AList.delete_conv')

lemma finalizeBlock_success:
  assumes "finalizeBlock K F now S b sigs sm = (Inr b', sm')"
  obtains sm1 where
    "processCrossShardTransactions F now (transactions b) sm = (None, sm1)"
    "crossShardTransactions sm' = crossShardTransactions sm1"
    "\<And>S' h. pendingIn sm' S' h =
        (pendingIn sm1 S' h \<and> \<not> (S' = S \<and> h \<in> set (map tx_hash (transactions b))))"
proof -
  let ?f = "\<lambda>sh. sh\<lparr>sh_chain := sh_chain sh @ [b], sh_lastProcessedBlock := Some b,
      sh_pendingTransactions :=
        fold (\<lambda>tx p. AList.delete (tx_hash tx) p) (transactions b) (sh_pendingTransactions sh)\<rparr>"
  from assms obtain sm1 where
    p: "processCrossShardTransactions F now (transactions b) sm = (None, sm1)" and
    m: "modifyShard (Some S) ?f sm1 = Some sm'"
    by (auto simp add: finalizeBlock_def split: option.splits if_splits prod.splits)
  have c: "crossShardTransactions sm' = crossShardTransactions sm1"
    by (rule crossShard_modifyShard [OF m])
  have "pendingIn sm' S' h =
        (pendingIn sm1 S' h \<and> \<not> (S' = S \<and> h \<in> set (map tx_hash (transactions b))))" for S' h
    unfolding pendingIn_modifyShard [OF m]
    using m
    by (auto simp add: pendingIn_def fold_delete_lookup modifyShard_def split: option.splits)
  with p c show thesis by (rule that)
qed

lemma getAddressShard_present:
  "getAddressShard A sm addr = Some s \<Longrightarrow> map_of (shards sm) s \<noteq> None"
  by (auto simp add: getAddressShard_def Let_def map_of_eq_None_iff split: if_splits)

lemma getTransactionShard_present:
  "getTransactionShard A sm tx = Some s \<Longrightarrow> map_of (shards sm) s \<noteq> None"
  by (auto simp add: getTransactionShard_def Let_def map_of_eq_None_iff split: if_splits)

lemma submission:
  assumes src: "getTransactionShard A sm tx = Some src"
    and tgt: "getAddressShard A sm (tx_recipient tx) = Some tgt"
    and ne: "src \<noteq> tgt"
  shows "fst (processTransaction A P now tx sm) = Inr (Cross (Some src) (Some tgt))
    \<and> statusOf (snd (processTransaction A P now tx sm)) (tx_hash tx) = Some Pending
    \<and> pendingIn (snd (processTransaction A P now tx sm)) src (tx_hash tx)
    \<and> pendingIn (snd (processTransaction A P now tx sm)) tgt (tx_hash tx)"
proof -
  from getTransactionShard_present [OF src] obtain s1 where s1: "map_of (shards sm) src = Some s1"
    by auto
  from getAddressShard_present [OF tgt] obtain s2 where s2: "map_of (shards sm) tgt = Some s2"
    by auto
  from src tgt ne have cross: "isCrossShardTransaction A sm tx"
    by (simp add: isCrossShardTransaction_def)
  show ?thesis
    using src tgt ne s1 s2 cross
    by (simp add: processTransaction_def processCrossShardTransaction_def modifyShard_def
        Let_def statusOf_def pendingIn_def AList.update_conv')
qed

lemmas shard_sample_defs =
  sixteenShards_def emptyShard_def sampleAddressHash_def sampleCrossProof_def
  sampleFinalProof_def aliceToBob_def sampleTx_def sampleTxHash_def shardBlock_def
  fourSignatures_def sampleKyber_def

lemmas shard_model_defs =
  processTransaction_def processCrossShardTransaction_def getTransactionShard_def
  getAddressShard_def isCrossShardTransaction_def generateCrossShardProof_def idText_def
  modifyShard_def finalizeBlock_def crossStep_def updateCrossShardTransaction_def
  finalizeCrossShardTransaction_def generateFinalizationProof_def verifySignature_def
  totalShards_def minValidatorsPerShard_def Let_def

lemma aliceToBob_routes:
  "getTransactionShard sampleAddressHash sixteenShards aliceToBob = Some ''shard-5''"
  "getAddressShard sampleAddressHash sixteenShards (tx_recipient aliceToBob) = Some ''shard-3''"
  by (simp_all add: shard_sample_defs shard_model_defs)

lemma finalizedOnce_ok:
  "finalizeBlock sampleKyber sampleFinalProof 1683900005000 ''shard-5''
     (shardBlock ''b1'' 1683900005000 [aliceToBob]) (fourSignatures ''b1'') submitted
   = (Inr (shardBlock ''b1'' 1683900005000 [aliceToBob]), finalizedOnce)"
  unfolding finalizedOnce_def submitted_def
  by (simp add: shard_sample_defs shard_model_defs)

lemma finalizedBySource_ok:
  "finalizeBlock sampleKyber sampleFinalProof 1683900010000 ''shard-5''
     (shardBlock ''b2'' 1683900010000 [aliceToBob]) (fourSignatures ''b2'') finalizedOnce
   = (Inr (shardBlock ''b2'' 1683900010000 [aliceToBob]), finalizedBySource)"
  unfolding finalizedBySource_def finalizedOnce_def submitted_def
  by (simp add: shard_sample_defs shard_model_defs)

lemma finalizedByTarget_ok:
  "finalizeBlock sampleKyber sampleFinalProof 1683900010000 ''shard-3''
     (shardBlock ''b3'' 1683900010000 [aliceToBob]) (fourSignatures ''b3'') finalizedOnce
   = (Inr (shardBlock ''b3'' 1683900010000 [aliceToBob]), finalizedByTarget)"
  unfolding finalizedByTarget_def finalizedOnce_def submitted_def
  by (simp add: shard_sample_defs shard_model_defs)

lemma finalizedOnce_entry:
  "\<exists>c. map_of (crossShardTransactions finalizedOnce) (tx_hash aliceToBob) = Some c
     \<and> cs_status c = Processing \<and> cs_sourceShard c = Some ''shard-5''
     \<and> cs_targetShard c = Some ''shard-3''"
  unfolding finalizedOnce_def submitted_def
  by (simp add: shard_sample_defs shard_model_defs)

text \<open>
  C3 as stated (a cross-shard transaction becomes completed only after both shards have
  finalized blocks containing it) fails: \<open>processCrossShardTransactions\<close> advances the
  status for every finalized block that contains the transaction and does not look at
  which shard finalizes. Below the source shard finalizes two blocks with the transaction;
  it is completed, and the target shard has finalized nothing.
\<close>

theorem crossShard_same_shard_counterexample:
  "getTransactionShard sampleAddressHash sixteenShards aliceToBob = Some ''shard-5''
   \<and> getAddressShard sampleAddressHash sixteenShards (tx_recipient aliceToBob) = Some ''shard-3''
   \<and> submitted = snd (processTransaction sampleAddressHash sampleCrossProof 1683900000600
        aliceToBob sixteenShards)
   \<and> finalizeBlock sampleKyber sampleFinalProof 1683900005000 ''shard-5''
        (shardBlock ''b1'' 1683900005000 [aliceToBob]) (fourSignatures ''b1'') submitted
      = (Inr (shardBlock ''b1'' 1683900005000 [aliceToBob]), finalizedOnce)
   \<and> finalizeBlock sampleKyber sampleFinalProof 1683900010000 ''shard-5''
        (shardBlock ''b2'' 1683900010000 [aliceToBob]) (fourSignatures ''b2'') finalizedOnce
      = (Inr (shardBlock ''b2'' 1683900010000 [aliceToBob]), finalizedBySource)
   \<and> statusOf finalizedBySource (tx_hash aliceToBob) = Some Completed
   \<and> map_option sh_chain (map_of (shards finalizedBySource) ''shard-3'') = Some []"
proof -
  have "statusOf finalizedBySource (tx_hash aliceToBob) = Some Completed
     \<and> map_option sh_chain (map_of (shards finalizedBySource) ''shard-3'') = Some []"
    unfolding finalizedBySource_def finalizedOnce_def submitted_def
    by (simp add: shard_sample_defs shard_model_defs statusOf_def)
  with aliceToBob_routes finalizedOnce_ok finalizedBySource_ok show ?thesis
    by (simp add: submitted_def)
qed

text \<open>
  C3, amended. On submission a transaction routed to two distinct shards is recorded
  pending and is in both shards' pending tables. A finalized block advances the status of
  a tracked transaction by one step of pending, processing, completed for every occurrence
  of the transaction in the block, whichever shard finalizes it; the finalizing shard
  drops the transactions of the block from its own pending table; as long as the
  transaction is not completed, every other shard's pending table keeps it; and a block
  that contains a processing transaction completes it and removes it from the pending
  tables of its source and target shards.
\<close>

theorem crossShard_lifecycle:
  "(getTransactionShard A sm0 tx = Some src \<and> getAddressShard A sm0 (tx_recipient tx) = Some tgt
      \<and> src \<noteq> tgt \<longrightarrow>
      fst (processTransaction A P t0 tx sm0) = Inr (Cross (Some src) (Some tgt))
      \<and> statusOf (snd (processTransaction A P t0 tx sm0)) (tx_hash tx) = Some Pending
      \<and> pendingIn (snd (processTransaction A P t0 tx sm0)) src (tx_hash tx)
      \<and> pendingIn (snd (processTransaction A P t0 tx sm0)) tgt (tx_hash tx))
   \<and> (finalizeBlock K F now S b sigs sm = (Inr b, sm') \<longrightarrow>
      statusOf sm' h
        = map_option (advance ^^ count_list (map tx_hash (transactions b)) h) (statusOf sm h)
      \<and> (h \<in> set (map tx_hash (transactions b)) \<longrightarrow> \<not> pendingIn sm' S h)
      \<and> (\<forall>S'. S' \<noteq> S \<and> statusOf sm' h \<noteq> Some Completed \<longrightarrow>
            pendingIn sm' S' h = pendingIn sm S' h)
      \<and> (\<forall>c S'. map_of (crossShardTransactions sm) h = Some c \<and> cs_status c = Processing
            \<and> h \<in> set (map tx_hash (transactions b))
            \<and> (cs_sourceShard c = Some S' \<or> cs_targetShard c = Some S') \<longrightarrow>
            statusOf sm' h = Some Completed \<and> \<not> pendingIn sm' S' h))"
proof (intro conjI impI)
  assume "getTransactionShard A sm0 tx = Some src \<and>
    getAddressShard A sm0 (tx_recipient tx) = Some tgt \<and> src \<noteq> tgt"
  then have r: "getTransactionShard A sm0 tx = Some src"
    "getAddressShard A sm0 (tx_recipient tx) = Some tgt" "src \<noteq> tgt"
    by simp_all
  note s = submission [OF r, of P t0]
  from s show "fst (processTransaction A P t0 tx sm0) = Inr (Cross (Some src) (Some tgt))" by simp
  from s show "statusOf (snd (processTransaction A P t0 tx sm0)) (tx_hash tx) = Some Pending"
    by simp
  from s show "pendingIn (snd (processTransaction A P t0 tx sm0)) src (tx_hash tx)" by simp
  from s show "pendingIn (snd (processTransaction A P t0 tx sm0)) tgt (tx_hash tx)" by simp
next
  assume f: "finalizeBlock K F now S b sigs sm = (Inr b, sm')"
  from finalizeBlock_success [OF f] obtain sm1 where
    p: "processCrossShardTransactions F now (transactions b) sm = (None, sm1)" and
    c: "crossShardTransactions sm' = crossShardTransactions sm1" and
    q: "\<And>S' h. pendingIn sm' S' h =
        (pendingIn sm1 S' h \<and> \<not> (S' = S \<and> h \<in> set (map tx_hash (transactions b))))"
    by blast
  from c have st: "statusOf sm' h = statusOf sm1 h" by (simp add: statusOf_def)
  show law: "statusOf sm' h
      = map_option (advance ^^ count_list (map tx_hash (transactions b)) h) (statusOf sm h)"
    using processCross_status [OF p, of h] st by simp
  show "\<forall>S'. S' \<noteq> S \<and> statusOf sm' h \<noteq> Some Completed \<longrightarrow>
      pendingIn sm' S' h = pendingIn sm S' h"
  proof (intro allI impI, elim conjE)
    fix S'
    assume "S' \<noteq> S" and "statusOf sm' h \<noteq> Some Completed"
    with st processCross_pending_kept [OF p, of h S'] q [of S' h]
    show "pendingIn sm' S' h = pendingIn sm S' h" by simp
  qed
  show "\<forall>c S'. map_of (crossShardTransactions sm) h = Some c \<and> cs_status c = Processing
      \<and> h \<in> set (map tx_hash (transactions b))
      \<and> (cs_sourceShard c = Some S' \<or> cs_targetShard c = Some S') \<longrightarrow>
      statusOf sm' h = Some Completed \<and> \<not> pendingIn sm' S' h"
  proof (intro allI impI, elim conjE)
    fix c S'
    assume e: "map_of (crossShardTransactions sm) h = Some c" and pr: "cs_status c = Processing"
      and m: "h \<in> set (map tx_hash (transactions b))"
      and sh: "cs_sourceShard c = Some S' \<or> cs_targetShard c = Some S'"
    from m have "count_list (map tx_hash (transactions b)) h \<noteq> 0"
      by (simp add: count_list_0_iff)
    then obtain n where n: "count_list (map tx_hash (transactions b)) h = Suc n"
      by (cases "count_list (map tx_hash (transactions b)) h") auto
    from e pr have "statusOf sm h = Some Processing" by (simp add: statusOf_def)
    with law n have "statusOf sm' h = Some Completed"
      by (simp add: funpow_swap1 advance_funpow_Completed)
    moreover from processCross_completed_removed [OF p e pr m sh] q [of S' h]
    have "\<not> pendingIn sm' S' h" by simp
    ultimately show "statusOf sm' h = Some Completed \<and> \<not> pendingIn sm' S' h" by simp
  qed
next
  assume f: "finalizeBlock K F now S b sigs sm = (Inr b, sm')"
    and m: "h \<in> set (map tx_hash (transactions b))"
  from finalizeBlock_success [OF f] obtain sm1 where
    q: "\<And>S' h. pendingIn sm' S' h =
        (pendingIn sm1 S' h \<and> \<not> (S' = S \<and> h \<in> set (map tx_hash (transactions b))))"
    by blast
  from q [of S h] m show "\<not> pendingIn sm' S h" by simp
qed

theorem crossShard_lifecycle_witness:
  "statusOf submitted (tx_hash aliceToBob) = Some Pending
   \<and> pendingIn submitted ''shard-5'' (tx_hash aliceToBob)
   \<and> pendingIn submitted ''shard-3'' (tx_hash aliceToBob)
   \<and> statusOf finalizedOnce (tx_hash aliceToBob) = Some Processing
   \<and> \<not> pendingIn finalizedOnce ''shard-5'' (tx_hash aliceToBob)
   \<and> pendingIn finalizedOnce ''shard-3'' (tx_hash aliceToBob)
   \<and> statusOf finalizedByTarget (tx_hash aliceToBob) = Some Completed
   \<and> \<not> pendingIn finalizedByTarget ''shard-5'' (tx_hash aliceToBob)
   \<and> \<not> pendingIn finalizedByTarget ''shard-3'' (tx_hash aliceToBob)"
proof -
  let ?h = "tx_hash aliceToBob"
  let ?b1 = "shardBlock ''b1'' 1683900005000 [aliceToBob]"
  let ?b3 = "shardBlock ''b3'' 1683900010000 [aliceToBob]"
  have one: "count_list (map tx_hash (transactions ?b1)) ?h = 1" "?h \<in> set (map tx_hash (transactions ?b1))"
    "?h \<in> set (map tx_hash (transactions ?b3))"
    by (simp_all add: shardBlock_def)
  note sub = crossShard_lifecycle [of sampleAddressHash sixteenShards aliceToBob "''shard-5''"
      "''shard-3''" sampleCrossProof 1683900000600 sampleKyber sampleFinalProof 1683900005000
      "''shard-5''" ?b1 "fourSignatures ''b1''" submitted finalizedOnce ?h]
  note fin = crossShard_lifecycle [of sampleAddressHash sixteenShards aliceToBob "''shard-5''"
      "''shard-3''" sampleCrossProof 1683900000600 sampleKyber sampleFinalProof 1683900010000
      "''shard-3''" ?b3 "fourSignatures ''b3''" finalizedOnce finalizedByTarget ?h]
  note sub1 = sub [THEN conjunct1, THEN mp, OF conjI [OF aliceToBob_routes(1) conjI [OF aliceToBob_routes(2)]]]
  have "''shard-5'' \<noteq> ''shard-3''" by simp
  from sub1 [OF this] have s:
    "statusOf submitted ?h = Some Pending" "pendingIn submitted ''shard-5'' ?h"
    "pendingIn submitted ''shard-3'' ?h"
    by (simp_all add: submitted_def)
  note sub2 = sub [THEN conjunct2, THEN mp, OF finalizedOnce_ok]
  from sub2 [THEN conjunct1] s(1) one(1) have p: "statusOf finalizedOnce ?h = Some Processing"
    by simp
  from sub2 [THEN conjunct2, THEN conjunct1, THEN mp, OF one(2)]
  have np: "\<not> pendingIn finalizedOnce ''shard-5'' ?h" .
  from sub2 [THEN conjunct2, THEN conjunct2, THEN conjunct1, rule_format, of "''shard-3''"] p s(3)
  have kept: "pendingIn finalizedOnce ''shard-3'' ?h" by simp
  from finalizedOnce_entry obtain c where c:
    "map_of (crossShardTransactions finalizedOnce) ?h = Some c" "cs_status c = Processing"
    "cs_sourceShard c = Some ''shard-5''" "cs_targetShard c = Some ''shard-3''"
    by blast
  note fin2 = fin [THEN conjunct2, THEN mp, OF finalizedByTarget_ok]
  note compl = fin2 [THEN conjunct2, THEN conjunct2, THEN conjunct2, rule_format]
  from compl [of c "''shard-5''"] c one(3)
  have d5: "statusOf finalizedByTarget ?h = Some Completed"
    "\<not> pendingIn finalizedByTarget ''shard-5'' ?h"
    by blast+
  from compl [of c "''shard-3''"] c one(3)
  have d3: "\<not> pendingIn finalizedByTarget ''shard-3'' ?h" by blast
  from s p np kept d5 d3 show ?thesis by simp
qed

end
